theory Spec2Isabelle
  imports Main "HOL-Library.Product_Lexorder" "HOL-Library.Word"
begin

section \<open>Host time-zone discovery and offset engine (android/utils/timezone.cpp)\<close>

text \<open>
  A shallow embedding of \<^verbatim>\<open>android/android-emu/android/utils/timezone.cpp\<close>.
  C strings are modelled by \<^typ>\<open>string\<close> (the characters before the terminating NUL),
  a nullable \<^verbatim>\<open>const char*\<close> by \<^typ>\<open>string option\<close> with \<^const>\<open>None\<close> for \<^verbatim>\<open>NULL\<close>,
  and a pointer into a string by the suffix it points at.
\<close>

subsection \<open>Zone-name validator\<close>

text \<open>
  \<^verbatim>\<open>strchr(s, c)\<close> for a character \<open>c\<close> other than NUL: the suffix of \<open>s\<close> that starts at
  the first occurrence of \<open>c\<close>, or \<^verbatim>\<open>NULL\<close>.
\<close>

fun strchr :: "string \<Rightarrow> char \<Rightarrow> string option" where
  "strchr [] c = None"
| "strchr (x # xs) c = (if x = c then Some (x # xs) else strchr xs c)"

text \<open>
  \<^verbatim>\<open>check_timezone_is_zoneinfo\<close>, lines 57-77. \<^verbatim>\<open>slash1[1] == 0\<close> reads the character
  after the slash: it is NUL exactly when the suffix after the slash is empty, and
  \<^verbatim>\<open>slash1 + 1\<close> is that suffix.
\<close>

definition check_timezone_is_zoneinfo :: "string option \<Rightarrow> bool" where
  "check_timezone_is_zoneinfo tz =
     (case tz of
        None \<Rightarrow> False
      | Some s \<Rightarrow>
          (case strchr s CHR ''/'' of
             None \<Rightarrow> False
           | Some slash1 \<Rightarrow>
               if tl slash1 = [] then False
               else (case strchr (tl slash1) CHR ''/'' of
                       None \<Rightarrow> True
                     | Some slash2 \<Rightarrow>
                         if tl slash2 = [] \<or> strchr (tl slash2) CHR ''/'' \<noteq> None
                         then False else True)))"

text \<open>
  The specification's reading of the validator: the name split at every \<open>/\<close> has two or
  three segments and none of them is empty.
\<close>

fun segments :: "string \<Rightarrow> string list" where
  "segments [] = [[]]"
| "segments (c # cs) =
     (if c = CHR ''/'' then [] # segments cs
      else (case segments cs of seg # segs \<Rightarrow> (c # seg) # segs | [] \<Rightarrow> [[c]]))"

definition is_area_location :: "string \<Rightarrow> bool" where
  "is_area_location s =
     ((length (segments s) = 2 \<or> length (segments s) = 3) \<and>
      list_all (\<lambda>seg. seg \<noteq> []) (segments s))"

subsection \<open>Printing the discovered zone\<close>


text \<open>
  An instance of the parameter, used in the examples: a print bounded by the buffer, as the
  two pointers \<^verbatim>\<open>p\<close> and \<^verbatim>\<open>end\<close> of the call \<^verbatim>\<open>bufprint(p, end, "%s", tz)\<close> ask for and
  as \<^verbatim>\<open>vsnprintf\<close> does it. With \<open>avail\<close> bytes between the pointers, the buffer holds the
  first \<open>avail - 1\<close> characters of the text, followed by NUL.
\<close>

definition bounded_print :: "nat \<Rightarrow> string \<Rightarrow> string" where
  "bounded_print avail s = take (avail - 1) s"

subsection \<open>Broken-down time\<close>

text \<open>
  The fields of \<^verbatim>\<open>struct tm\<close> that the engine reads and writes. They are C \<^verbatim>\<open>int\<close>s; on the
  values a calendar date can take, none of the arithmetic below leaves the 32-bit range, so
  they are modelled by \<^typ>\<open>int\<close>. \<open>tm_year\<close> counts from 1900 and \<open>tm_mon\<close> from 0.
\<close>

record tm =
  tm_sec :: int
  tm_min :: int
  tm_hour :: int
  tm_mday :: int
  tm_mon :: int
  tm_year :: int

text \<open>\<^verbatim>\<open>TimeZone::utcCompare\<close>, lines 1062-1101.\<close>

definition utcCompare :: "tm \<Rightarrow> tm \<Rightarrow> int" where
  "utcCompare utc1 utc2 =
     (if tm_year utc1 > tm_year utc2 then 1
      else if tm_year utc1 < tm_year utc2 then - 1
      else if tm_mon utc1 > tm_mon utc2 then 1
      else if tm_mon utc1 < tm_mon utc2 then - 1
      else if tm_mday utc1 > tm_mday utc2 then 1
      else if tm_mday utc1 < tm_mday utc2 then - 1
      else if tm_hour utc1 > tm_hour utc2 then 1
      else if tm_hour utc1 < tm_hour utc2 then - 1
      else if tm_min utc1 > tm_min utc2 then 1
      else if tm_min utc1 < tm_min utc2 then - 1
      else if tm_sec utc1 > tm_sec utc2 then 1
      else if tm_sec utc1 < tm_sec utc2 then - 1
      else 0)"

text \<open>\<^verbatim>\<open>TimeZone::diffTime\<close>, lines 1123-1143, with \<^verbatim>\<open>kSecondsPerDay = 60 * 60 * 24\<close>.\<close>

definition kSecondsPerDay :: int where
  "kSecondsPerDay = 60 * 60 * 24"

definition diffTime :: "tm \<Rightarrow> tm \<Rightarrow> int" where
  "diffTime end beginning =
     (let endInSecs = tm_sec end + 60 * (tm_min end + 60 * tm_hour end);
          beginningInSecs = tm_sec beginning + 60 * (tm_min beginning + 60 * tm_hour beginning)
      in if tm_year end > tm_year beginning
         then (endInSecs + kSecondsPerDay) - beginningInSecs
         else if tm_year end < tm_year beginning
         then endInSecs - (beginningInSecs + kSecondsPerDay)
         else if tm_mon end > tm_mon beginning
         then (endInSecs + kSecondsPerDay) - beginningInSecs
         else if tm_mon end < tm_mon beginning
         then endInSecs - (beginningInSecs + kSecondsPerDay)
         else (endInSecs + kSecondsPerDay * tm_mday end)
              - (beginningInSecs + kSecondsPerDay * tm_mday beginning))"

subsection \<open>Calendar time, for stating what the engine computes\<close>

text \<open>
  The order the specification names: a lexicographic comparison of year, month, day, hour,
  minute and second (the order of \<^verbatim>\<open>HOL-Library.Product_Lexorder\<close> on the tuple).
\<close>

definition civil_key :: "tm \<Rightarrow> int \<times> int \<times> int \<times> int \<times> int \<times> int" where
  "civil_key t = (tm_year t, tm_mon t, tm_mday t, tm_hour t, tm_min t, tm_sec t)"

text \<open>
  The UTC timestamp of a broken-down time in the proleptic Gregorian calendar (what
  \<^verbatim>\<open>timegm\<close> returns on a calendar date): days since 1970-01-01 times 86400 plus the
  seconds of the day.
\<close>

definition is_leap_year :: "int \<Rightarrow> bool" where
  "is_leap_year y = (y mod 4 = 0 \<and> (y mod 100 \<noteq> 0 \<or> y mod 400 = 0))"

definition days_in_month :: "int \<Rightarrow> int \<Rightarrow> int" where
  "days_in_month y m =
     (if m = 1 then (if is_leap_year y then 29 else 28)
      else if m = 3 \<or> m = 5 \<or> m = 8 \<or> m = 10 then 30 else 31)"

definition days_before_month :: "int \<Rightarrow> int \<Rightarrow> int" where
  "days_before_month y m = (\<Sum>k \<leftarrow> [0..<nat m]. days_in_month y (int k))"

definition days_before_year :: "int \<Rightarrow> int" where
  "days_before_year y =
     365 * (y - 1970) + ((y - 1) div 4 - (y - 1) div 100 + (y - 1) div 400) - 477"

definition days_from_civil :: "tm \<Rightarrow> int" where
  "days_from_civil t =
     days_before_year (tm_year t + 1900) + days_before_month (tm_year t + 1900) (tm_mon t)
     + (tm_mday t - 1)"

definition timegm :: "tm \<Rightarrow> int" where
  "timegm t = days_from_civil t * 86400 + tm_hour t * 3600 + tm_min t * 60 + tm_sec t"

text \<open>
  A civil instant: the fields name a day of the calendar and a time of that day
  (\<open>tm_sec\<close> may be 60, as \<^verbatim>\<open>struct tm\<close> allows for a leap second).
\<close>

definition civil_instant :: "tm \<Rightarrow> bool" where
  "civil_instant t =
     (0 \<le> tm_mon t \<and> tm_mon t < 12 \<and>
      1 \<le> tm_mday t \<and> tm_mday t \<le> days_in_month (tm_year t + 1900) (tm_mon t) \<and>
      0 \<le> tm_hour t \<and> tm_hour t < 24 \<and>
      0 \<le> tm_min t \<and> tm_min t < 60 \<and>
      0 \<le> tm_sec t \<and> tm_sec t \<le> 60)"

subsection \<open>Outcomes of the C++ calls\<close>

text \<open>
  The resolver calls \<^verbatim>\<open>std::stoi\<close> and \<^verbatim>\<open>std::string::substr\<close>, which throw, and builds
  vectors from iterator ranges, which is undefined behaviour when the range leaves the
  vector. A call therefore returns a value, throws, or has no defined behaviour.
\<close>

datatype cxx_exception = Invalid_argument | Out_of_range

datatype 'a outcome = Returns 'a | Throws cxx_exception | Undefined

definition obind :: "'a outcome \<Rightarrow> ('a \<Rightarrow> 'b outcome) \<Rightarrow> 'b outcome" where
  "obind m f = (case m of Returns x \<Rightarrow> f x | Throws x \<Rightarrow> Throws x | Undefined \<Rightarrow> Undefined)"

subsection \<open>Text handling of the standard library\<close>

text \<open>\<^verbatim>\<open>isspace\<close> and \<^verbatim>\<open>isdigit\<close> in the C locale.\<close>

definition isspace :: "char \<Rightarrow> bool" where
  "isspace c = (c \<in> set [CHR '' '', CHR 0x09, CHR 0x0A, CHR 0x0B, CHR 0x0C, CHR 0x0D])"

definition isdigit :: "char \<Rightarrow> bool" where
  "isdigit c = (c \<in> set ''0123456789'')"

text \<open>The value of a decimal digit: its position in \<open>0123456789\<close>.\<close>

definition digit_value :: "char \<Rightarrow> int" where
  "digit_value c = int (length (takeWhile (\<lambda>d. d \<noteq> c) ''0123456789''))"

fun digits_value :: "int \<Rightarrow> string \<Rightarrow> int" where
  "digits_value acc [] = acc"
| "digits_value acc (c # cs) = digits_value (10 * acc + digit_value c) cs"

text \<open>
  \<^verbatim>\<open>std::stoi(str)\<close> (base 10): skips leading white space, reads an optional sign and the
  longest run of digits, ignores what follows; throws \<^verbatim>\<open>std::invalid_argument\<close> when there is
  no digit and \<^verbatim>\<open>std::out_of_range\<close> when the value does not fit an \<^verbatim>\<open>int\<close>.
\<close>

definition stoi :: "string \<Rightarrow> int outcome" where
  "stoi str =
     (let s1 = dropWhile isspace str;
          neg = (s1 \<noteq> [] \<and> hd s1 = CHR ''-'');
          s2 = (if s1 \<noteq> [] \<and> (hd s1 = CHR ''-'' \<or> hd s1 = CHR ''+'') then tl s1 else s1);
          ds = takeWhile isdigit s2;
          v = (if neg then - digits_value 0 ds else digits_value 0 ds)
      in if ds = [] then Throws Invalid_argument
         else if v < - 2147483648 \<or> 2147483647 < v then Throws Out_of_range
         else Returns v)"

text \<open>\<^verbatim>\<open>s.substr(pos, n)\<close>: throws \<^verbatim>\<open>std::out_of_range\<close> when \<open>pos\<close> is beyond the end.\<close>

definition substr :: "string \<Rightarrow> nat \<Rightarrow> nat \<Rightarrow> string outcome" where
  "substr s pos n = (if length s < pos then Throws Out_of_range else Returns (take n (drop pos s)))"

text \<open>
  \<^verbatim>\<open>while (std::getline(file, line)) rules.push_back(line)\<close>: the lines of the file, a last
  line without a newline included. The first argument is the line being read.
\<close>

fun getlines :: "string \<Rightarrow> string \<Rightarrow> string list" where
  "getlines line [] = (if line = [] then [] else [line])"
| "getlines line (c # cs) =
     (if c = CHR 0x0A then line # getlines [] cs else getlines (line @ [c]) cs)"

text \<open>
  \<^verbatim>\<open>while (ss >> token) tokens.push_back(token)\<close>: the white-space separated words of a
  line. The first argument is the word being read.
\<close>

fun tokenize :: "string \<Rightarrow> string \<Rightarrow> string list" where
  "tokenize token [] = (if token = [] then [] else [token])"
| "tokenize token (c # cs) =
     (if isspace c then (if token = [] then tokenize [] cs else token # tokenize [] cs)
      else tokenize (token @ [c]) cs)"

subsection \<open>The engine's state and its host\<close>

text \<open>
  The data members of \<^verbatim>\<open>class TimeZone\<close>, lines 968-974. \<open>resolver_calls\<close> is not a member
  of the class: it is the call counter of a stub resolver, incremented once by every call
  of \<^verbatim>\<open>androidTimeZoneSet\<close> and read by no function.
\<close>

record TimeZone =
  mStandardDateUtc :: tm
  mDaylightDateUtc :: tm
  mStandardOffset :: int
  mDaylightOffset :: int
  mCurrentYear :: int
  mAndroidTimeZoneInit :: int
  mTimeZoneName :: string
  resolver_calls :: nat

text \<open>
  What \<^verbatim>\<open>tempfile_create\<close>, \<^verbatim>\<open>System::runCommand\<close> and the read of the output file give for
  one command line.
\<close>

record cmd_result =
  tempfile_created :: bool
  commandRan :: bool
  exitCode :: int
  output_file :: string

text \<open>The Windows \<^verbatim>\<open>SYSTEMTIME\<close> (eight \<^verbatim>\<open>WORD\<close>s) and \<^verbatim>\<open>REG_TZI_FORMAT\<close>, lines 1147-1154.\<close>

record SYSTEMTIME =
  wYear :: "16 word"
  wMonth :: "16 word"
  wDayOfWeek :: "16 word"
  wDay :: "16 word"
  wHour :: "16 word"
  wMinute :: "16 word"
  wSecond :: "16 word"
  wMilliseconds :: "16 word"

record REG_TZI_FORMAT =
  Bias :: int
  StandardBias :: int
  DaylightBias :: int
  StandardDate :: SYSTEMTIME
  DaylightDate :: SYSTEMTIME

text \<open>
  The host: the C library's \<^verbatim>\<open>gmtime\<close> and \<^verbatim>\<open>localtime\<close> on a \<^verbatim>\<open>time_t\<close>, the build
  (\<^verbatim>\<open>_WIN32\<close> or not), the outcome of the two shell commands (\<^verbatim>\<open>zdump -v zone | grep year\<close>
  and \<^verbatim>\<open>TZ=zone date +%z\<close>), and the \<^verbatim>\<open>TZI\<close> value of the registry key of a Windows zone name
  (\<^const>\<open>None\<close> when \<^verbatim>\<open>RegOpenKeyEx\<close> or \<^verbatim>\<open>RegQueryValueEx\<close> fails).
\<close>

record host =
  host_gmtime :: "int \<Rightarrow> tm"
  host_localtime :: "int \<Rightarrow> tm"
  win32 :: bool
  run_zdump :: "string \<Rightarrow> int \<Rightarrow> cmd_result"
  run_date :: "string \<Rightarrow> cmd_result"
  registry_tzi :: "string \<Rightarrow> REG_TZI_FORMAT option"

subsection \<open>Offsets\<close>

text \<open>\<^verbatim>\<open>TimeZone::getIsDaylightSavingTime\<close>, lines 1103-1115.\<close>

definition getIsDaylightSavingTime :: "host \<Rightarrow> TimeZone \<Rightarrow> int \<Rightarrow> int" where
  "getIsDaylightSavingTime h e timeNow =
     (if mDaylightOffset e = 0 then - 1
      else (let utc = host_gmtime h timeNow
            in if utcCompare utc (mStandardDateUtc e) < 0 \<or> utcCompare utc (mDaylightDateUtc e) \<ge> 0
               then 0 else 1))"

text \<open>\<^verbatim>\<open>TimeZone::getTimeZoneDiff\<close>, lines 1117-1121.\<close>

definition getTimeZoneDiff :: "host \<Rightarrow> TimeZone \<Rightarrow> int \<Rightarrow> int" where
  "getTimeZoneDiff h e timeNow =
     (let isdst = getIsDaylightSavingTime h e timeNow
      in if isdst \<le> 0 then mStandardOffset e else mStandardOffset e + mDaylightOffset e)"

subsection \<open>Resolution with zdump and date\<close>

definition kMonthName :: "string list" where
  "kMonthName = [''Jan'', ''Feb'', ''Mar'', ''Apr'', ''May'', ''Jun'',
                 ''Jul'', ''Aug'', ''Sep'', ''Oct'', ''Nov'', ''Dec'']"

text \<open>
  The month loop of \<^verbatim>\<open>parseZdumpDate\<close>: the index of the first name equal to the token,
  \<open>-1\<close> when there is none.
\<close>

fun monIdx_from :: "string list \<Rightarrow> int \<Rightarrow> string \<Rightarrow> int" where
  "monIdx_from [] i token = - 1"
| "monIdx_from (name # names) i token = (if token = name then i else monIdx_from names (i + 1) token)"

text \<open>
  \<^verbatim>\<open>TimeZone::parseZdumpDate\<close>, lines 1216-1239: the date written through the pointer and the
  returned code. The reads \<open>tokens ! k\<close> are below the size checked first.
\<close>

definition parseZdumpDate :: "string list \<Rightarrow> tm \<Rightarrow> (tm \<times> int) outcome" where
  "parseZdumpDate tokens date =
     (if length tokens \<ge> 4 then
        (let monIdx = monIdx_from kMonthName 0 (tokens ! 0)
         in if monIdx = - 1 then Returns (date, - 1)
            else
              obind (stoi (tokens ! 1)) (\<lambda>mday.
              obind (substr (tokens ! 2) 0 2) (\<lambda>hh. obind (stoi hh) (\<lambda>hour.
              obind (substr (tokens ! 2) 3 2) (\<lambda>mm. obind (stoi mm) (\<lambda>minute.
              obind (substr (tokens ! 2) 6 2) (\<lambda>ss. obind (stoi ss) (\<lambda>sec.
              obind (stoi (tokens ! 3)) (\<lambda>year.
                Returns (date\<lparr>tm_mon := monIdx, tm_mday := mday, tm_hour := hour,
                               tm_min := minute, tm_sec := sec, tm_year := year - 1900\<rparr>, 0))))))))))
      else Returns (date, - 1))"

text \<open>
  \<^verbatim>\<open>std::vector<std::string>(tokens.begin() + i, tokens.begin() + j)\<close>: undefined when the
  vector has fewer than \<open>j\<close> elements.
\<close>

definition token_range :: "string list \<Rightarrow> nat \<Rightarrow> nat \<Rightarrow> string list outcome" where
  "token_range tokens i j = (if length tokens < j then Undefined else Returns (take (j - i) (drop i tokens)))"

text \<open>
  The value of the local \<^verbatim>\<open>struct tm localDate\<close> before \<^verbatim>\<open>parseZdumpDate\<close> fills it. It is
  not initialised in the source; every field read afterwards has been written by then.
\<close>

definition localDate_uninitialised :: tm where
  "localDate_uninitialised = \<lparr>tm_sec = 0, tm_min = 0, tm_hour = 0, tm_mday = 0, tm_mon = 0, tm_year = 0\<rparr>"

text \<open>
  One round of the loop \<^verbatim>\<open>for (i = 1; i < 4; i += 2)\<close> of \<^verbatim>\<open>setAndroidTimeZoneUsingZdump\<close>,
  lines 1277-1297, on the line \<open>rule\<close>. The state is the engine and the two locals
  \<open>utcOffsetDST\<close> and \<open>utcOffsetStandard\<close>; the result \<^const>\<open>Inl\<close> is the \<^verbatim>\<open>return -1\<close> inside
  the loop, with the engine as it is then.
\<close>

definition zdump_round ::
  "nat \<Rightarrow> string \<Rightarrow> TimeZone \<times> int \<times> int \<Rightarrow> (TimeZone + TimeZone \<times> int \<times> int) outcome" where
  "zdump_round i rule st =
     (case st of (e, utcOffsetDST, utcOffsetStandard) \<Rightarrow>
        (let tokens = tokenize [] rule
         in obind (token_range tokens 2 6) (\<lambda>utcTokens.
            obind (parseZdumpDate utcTokens (if i = 1 then mStandardDateUtc e else mDaylightDateUtc e))
              (\<lambda>(date, rc).
                 let e1 = (if i = 1 then e\<lparr>mStandardDateUtc := date\<rparr> else e\<lparr>mDaylightDateUtc := date\<rparr>)
                 in if rc \<noteq> 0 then Returns (Inl e1)
                    else
                      obind (token_range tokens 9 13) (\<lambda>localTokens.
                      obind (parseZdumpDate localTokens localDate_uninitialised)
                        (\<lambda>(localDate, rc2).
                           if rc2 \<noteq> 0 then Returns (Inl e1)
                           else if i = 1
                           then Returns (Inr (e1, diffTime localDate (mStandardDateUtc e1), utcOffsetStandard))
                           else Returns (Inr (e1, utcOffsetDST, diffTime localDate (mDaylightDateUtc e1)))))))))"

text \<open>\<^verbatim>\<open>TimeZone::setAndroidTimeZoneUsingZdump\<close>, lines 1241-1304.\<close>

definition setAndroidTimeZoneUsingZdump :: "host \<Rightarrow> TimeZone \<Rightarrow> (TimeZone \<times> int) outcome" where
  "setAndroidTimeZoneUsingZdump h e =
     (let r = run_zdump h (mTimeZoneName e) (mCurrentYear e)
      in if \<not> tempfile_created r then Returns (e, - 1)
         else if commandRan r \<and> exitCode r = 0 then
           (let rules = getlines [] (output_file r)
            in if length rules = 4 then
                 obind (zdump_round 1 (rules ! 1) (e, 0, 0)) (\<lambda>r1.
                   case r1 of
                     Inl e1 \<Rightarrow> Returns (e1, - 1)
                   | Inr st1 \<Rightarrow>
                       obind (zdump_round 3 (rules ! 3) st1) (\<lambda>r3.
                         case r3 of
                           Inl e3 \<Rightarrow> Returns (e3, - 1)
                         | Inr (e3, utcOffsetDST, utcOffsetStandard) \<Rightarrow>
                             Returns (e3\<lparr>mStandardOffset := utcOffsetStandard,
                                         mDaylightOffset := utcOffsetDST - utcOffsetStandard\<rparr>, 0)))
               else Returns (e, - 1))
         else Returns (e, - 1))"

text \<open>
  \<^verbatim>\<open>TimeZone::setAndroidTimeZoneUsingDate\<close>, lines 1306-1337. \<^verbatim>\<open>tzdiff\<close> is the first line of
  the output (empty when there is none) and \<^verbatim>\<open>tzdiff[0]\<close> of an empty string is NUL.
  The two operands of the sum are evaluated from left to right here; C++ leaves the order
  open, which matters only for which of two exceptions is thrown.
\<close>

definition setAndroidTimeZoneUsingDate :: "host \<Rightarrow> TimeZone \<Rightarrow> (TimeZone \<times> int) outcome" where
  "setAndroidTimeZoneUsingDate h e =
     (let r = run_date h (mTimeZoneName e)
      in if \<not> tempfile_created r then Returns (e, - 1)
         else if commandRan r \<and> exitCode r = 0 then
           (let tzdiff = takeWhile (\<lambda>c. c \<noteq> CHR 0x0A) (output_file r);
                sign = (if tzdiff \<noteq> [] \<and> hd tzdiff = CHR ''+'' then 1 else - 1)
            in obind (substr tzdiff 1 2) (\<lambda>hh. obind (stoi hh) (\<lambda>hours.
               obind (substr tzdiff 3 2) (\<lambda>mm. obind (stoi mm) (\<lambda>minutes.
                 Returns (e\<lparr>mStandardOffset := sign * (60 * (hours * 60 + minutes)),
                            mDaylightOffset := 0\<rparr>, 0))))))
         else Returns (e, - 1))"

subsection \<open>Resolution with the Windows registry\<close>

text \<open>\<^verbatim>\<open>TimeZone::parseSystemTime\<close>, lines 1204-1212.\<close>

definition parseSystemTime :: "SYSTEMTIME \<Rightarrow> tm \<Rightarrow> tm" where
  "parseSystemTime winTime androidTime =
     androidTime\<lparr>tm_year := uint (wYear winTime) - 1900,
                 tm_mon := uint (wMonth winTime) - 1,
                 tm_mday := uint (wDay winTime),
                 tm_hour := uint (wHour winTime),
                 tm_min := uint (wMinute winTime),
                 tm_sec := uint (wSecond winTime)\<rparr>"

text \<open>
  The loop over \<^verbatim>\<open>_win32_timezones\<close> in \<^verbatim>\<open>androidTimeZoneSet\<close>, lines 1347-1352: the Windows
  name of the first row whose zoneinfo name is \<open>tzname\<close>. Rows are (Windows name, zoneinfo
  name).
\<close>

fun find_winName :: "(string \<times> string) list \<Rightarrow> string \<Rightarrow> string option" where
  "find_winName [] tzname = None"
| "find_winName ((win_name, zoneinfo_name) # rows) tzname =
     (if zoneinfo_name = tzname then Some win_name else find_winName rows tzname)"

text \<open>
  The \<^verbatim>\<open>_WIN32\<close> branch of \<^verbatim>\<open>androidTimeZoneSet\<close>, lines 1345-1371, over the table \<open>tbl\<close>.
  Both calls of \<^verbatim>\<open>parseSystemTime\<close> write through \<^verbatim>\<open>&mStandardDateUtc\<close>, as in the source.
\<close>

definition androidTimeZoneSet_win32 :: "(string \<times> string) list \<Rightarrow> host \<Rightarrow> TimeZone \<Rightarrow> string \<Rightarrow> TimeZone" where
  "androidTimeZoneSet_win32 tbl h e tzname =
     (case find_winName tbl tzname of
        None \<Rightarrow> e
      | Some winName \<Rightarrow>
          (case registry_tzi h winName of
             None \<Rightarrow> e
           | Some win_tzi \<Rightarrow>
               (let e1 = e\<lparr>mStandardOffset := - StandardBias win_tzi * 60\<rparr>;
                    e2 = e1\<lparr>mDaylightOffset := - DaylightBias win_tzi * 60\<rparr>;
                    e3 = (if mDaylightOffset e2 \<noteq> 0
                          then (let e2a = e2\<lparr>mStandardDateUtc :=
                                              parseSystemTime (StandardDate win_tzi) (mStandardDateUtc e2)\<rparr>
                                in e2a\<lparr>mStandardDateUtc :=
                                          parseSystemTime (DaylightDate win_tzi) (mStandardDateUtc e2a)\<rparr>)
                          else e2)
                in e3\<lparr>mAndroidTimeZoneInit := 1\<rparr>)))"

text \<open>The table \<^verbatim>\<open>_win32_timezones\<close>, lines 423-876, without its \<^verbatim>\<open>{NULL, NULL}\<close> sentinel.\<close>

definition win32_timezones :: "(string \<times> string) list" where
  "win32_timezones =
    [(''AUS Central Standard Time'', ''Australia/Darwin''),
     (''AUS Eastern Standard Time'', ''Australia/Sydney''),
     (''AUS Eastern Standard Time'', ''Australia/Melbourne''),
     (''Afghanistan Standard Time'', ''Asia/Kabul''),
     (''Alaskan Standard Time'', ''America/Anchorage''),
     (''Alaskan Standard Time'', ''America/Juneau''),
     (''Alaskan Standard Time'', ''America/Metlakatla''),
     (''Alaskan Standard Time'', ''America/Nome''),
     (''Alaskan Standard Time'', ''America/Sitka''),
     (''Alaskan Standard Time'', ''America/Yakutat''),
     (''Aleutian Standard Time'', ''America/Adak''),
     (''Altai Standard Time'', ''Asia/Barnaul''),
     (''Arab Standard Time'', ''Asia/Riyadh''),
     (''Arab Standard Time'', ''Asia/Bahrain''),
     (''Arab Standard Time'', ''Asia/Kuwait''),
     (''Arab Standard Time'', ''Asia/Qatar''),
     (''Arab Standard Time'', ''Asia/Aden''),
     (''Arabian Standard Time'', ''Asia/Dubai''),
     (''Arabian Standard Time'', ''Asia/Muscat''),
     (''Arabian Standard Time'', ''Etc/GMT-4''),
     (''Arabic Standard Time'', ''Asia/Baghdad''),
     (''Argentina Standard Time'', ''America/Buenos_Aires''),
     (''Argentina Standard Time'', ''America/Argentina/La_Rioja''),
     (''Argentina Standard Time'', ''America/Argentina/Rio_Gallegos''),
     (''Argentina Standard Time'', ''America/Argentina/Salta''),
     (''Argentina Standard Time'', ''America/Argentina/San_Juan''),
     (''Argentina Standard Time'', ''America/Argentina/San_Luis''),
     (''Argentina Standard Time'', ''America/Argentina/Tucuman''),
     (''Argentina Standard Time'', ''America/Argentina/Ushuaia''),
     (''Argentina Standard Time'', ''America/Catamarca''),
     (''Argentina Standard Time'', ''America/Cordoba''),
     (''Argentina Standard Time'', ''America/Jujuy''),
     (''Argentina Standard Time'', ''America/Mendoza''),
     (''Astrakhan Standard Time'', ''Europe/Astrakhan''),
     (''Astrakhan Standard Time'', ''Europe/Ulyanovsk''),
     (''Atlantic Standard Time'', ''America/Halifax''),
     (''Atlantic Standard Time'', ''Atlantic/Bermuda''),
     (''Atlantic Standard Time'', ''America/Glace_Bay''),
     (''Atlantic Standard Time'', ''America/Goose_Bay''),
     (''Atlantic Standard Time'', ''America/Moncton''),
     (''Atlantic Standard Time'', ''America/Thule''),
     (''Aus Central W. Standard Time'', ''Australia/Eucla''),
     (''Azerbaijan Standard Time'', ''Asia/Baku''),
     (''Azores Standard Time'', ''Atlantic/Azores''),
     (''Azores Standard Time'', ''America/Scoresbysund''),
     (''Bahia Standard Time'', ''America/Bahia''),
     (''Bangladesh Standard Time'', ''Asia/Dhaka''),
     (''Bangladesh Standard Time'', ''Asia/Thimphu''),
     (''Belarus Standard Time'', ''Europe/Minsk''),
     (''Bougainville Standard Time'', ''Pacific/Bougainville''),
     (''Canada Central Standard Time'', ''America/Regina''),
     (''Canada Central Standard Time'', ''America/Swift_Current''),
     (''Cape Verde Standard Time'', ''Atlantic/Cape_Verde''),
     (''Cape Verde Standard Time'', ''Etc/GMT+1''),
     (''Caucasus Standard Time'', ''Asia/Yerevan''),
     (''Cen. Australia Standard Time'', ''Australia/Adelaide''),
     (''Cen. Australia Standard Time'', ''Australia/Broken_Hill''),
     (''Central America Standard Time'', ''America/Guatemala''),
     (''Central America Standard Time'', ''America/Belize''),
     (''Central America Standard Time'', ''America/Costa_Rica''),
     (''Central America Standard Time'', ''Pacific/Galapagos''),
     (''Central America Standard Time'', ''America/Tegucigalpa''),
     (''Central America Standard Time'', ''America/Managua''),
     (''Central America Standard Time'', ''America/El_Salvador''),
     (''Central America Standard Time'', ''Etc/GMT+6''),
     (''Central Asia Standard Time'', ''Asia/Almaty''),
     (''Central Asia Standard Time'', ''Antarctica/Vostok''),
     (''Central Asia Standard Time'', ''Asia/Urumqi''),
     (''Central Asia Standard Time'', ''Indian/Chagos''),
     (''Central Asia Standard Time'', ''Asia/Bishkek''),
     (''Central Asia Standard Time'', ''Asia/Qyzylorda''),
     (''Central Asia Standard Time'', ''Etc/GMT-6''),
     (''Central Brazilian Standard Time'', ''America/Cuiaba''),
     (''Central Brazilian Standard Time'', ''America/Campo_Grande''),
     (''Central Europe Standard Time'', ''Europe/Budapest''),
     (''Central Europe Standard Time'', ''Europe/Tirane''),
     (''Central Europe Standard Time'', ''Europe/Prague''),
     (''Central Europe Standard Time'', ''Europe/Podgorica''),
     (''Central Europe Standard Time'', ''Europe/Belgrade''),
     (''Central Europe Standard Time'', ''Europe/Ljubljana''),
     (''Central Europe Standard Time'', ''Europe/Bratislava''),
     (''Central European Standard Time'', ''Europe/Warsaw''),
     (''Central European Standard Time'', ''Europe/Sarajevo''),
     (''Central European Standard Time'', ''Europe/Zagreb''),
     (''Central European Standard Time'', ''Europe/Skopje''),
     (''Central Pacific Standard Time'', ''Pacific/Guadalcanal''),
     (''Central Pacific Standard Time'', ''Antarctica/Macquarie''),
     (''Central Pacific Standard Time'', ''Pacific/Ponape''),
     (''Central Pacific Standard Time'', ''Pacific/Kosrae''),
     (''Central Pacific Standard Time'', ''Pacific/Noumea''),
     (''Central Pacific Standard Time'', ''Pacific/Efate''),
     (''Central Pacific Standard Time'', ''Etc/GMT-11''),
     (''Central Standard Time'', ''America/Chicago''),
     (''Central Standard Time'', ''America/Winnipeg''),
     (''Central Standard Time'', ''America/Rainy_River''),
     (''Central Standard Time'', ''America/Rankin_Inlet''),
     (''Central Standard Time'', ''America/Resolute''),
     (''Central Standard Time'', ''America/Matamoros''),
     (''Central Standard Time'', ''America/Indiana/Knox''),
     (''Central Standard Time'', ''America/Indiana/Tell_City''),
     (''Central Standard Time'', ''America/Menominee''),
     (''Central Standard Time'', ''America/North_Dakota/Beulah''),
     (''Central Standard Time'', ''America/North_Dakota/Center''),
     (''Central Standard Time'', ''America/North_Dakota/New_Salem''),
     (''Central Standard Time'', ''CST6CDT''),
     (''Central Standard Time (Mexico)'', ''America/Mexico_City''),
     (''Central Standard Time (Mexico)'', ''America/Bahia_Banderas''),
     (''Central Standard Time (Mexico)'', ''America/Merida''),
     (''Central Standard Time (Mexico)'', ''America/Monterrey''),
     (''Chatham Islands Standard Time'', ''Pacific/Chatham''),
     (''China Standard Time'', ''Asia/Shanghai''),
     (''China Standard Time'', ''Asia/Hong_Kong''),
     (''China Standard Time'', ''Asia/Macau''),
     (''Cuba Standard Time'', ''America/Havana''),
     (''Dateline Standard Time'', ''Etc/GMT+12''),
     (''E. Africa Standard Time'', ''Africa/Nairobi''),
     (''E. Africa Standard Time'', ''Antarctica/Syowa''),
     (''E. Africa Standard Time'', ''Africa/Djibouti''),
     (''E. Africa Standard Time'', ''Africa/Asmera''),
     (''E. Africa Standard Time'', ''Africa/Addis_Ababa''),
     (''E. Africa Standard Time'', ''Indian/Comoro''),
     (''E. Africa Standard Time'', ''Indian/Antananarivo''),
     (''E. Africa Standard Time'', ''Africa/Khartoum''),
     (''E. Africa Standard Time'', ''Africa/Mogadishu''),
     (''E. Africa Standard Time'', ''Africa/Juba''),
     (''E. Africa Standard Time'', ''Africa/Dar_es_Salaam''),
     (''E. Africa Standard Time'', ''Africa/Kampala''),
     (''E. Africa Standard Time'', ''Indian/Mayotte''),
     (''E. Africa Standard Time'', ''Etc/GMT-3''),
     (''E. Australia Standard Time'', ''Australia/Brisbane''),
     (''E. Australia Standard Time'', ''Australia/Lindeman''),
     (''E. Europe Standard Time'', ''Europe/Chisinau''),
     (''E. South America Standard Time'', ''America/Sao_Paulo''),
     (''Easter Island Standard Time'', ''Pacific/Easter''),
     (''Eastern Standard Time'', ''America/New_York''),
     (''Eastern Standard Time'', ''America/Nassau''),
     (''Eastern Standard Time'', ''America/Toronto''),
     (''Eastern Standard Time'', ''America/Iqaluit''),
     (''Eastern Standard Time'', ''America/Montreal''),
     (''Eastern Standard Time'', ''America/Nipigon''),
     (''Eastern Standard Time'', ''America/Pangnirtung''),
     (''Eastern Standard Time'', ''America/Thunder_Bay''),
     (''Eastern Standard Time'', ''America/Detroit''),
     (''Eastern Standard Time'', ''America/Indiana/Petersburg''),
     (''Eastern Standard Time'', ''America/Indiana/Vincennes''),
     (''Eastern Standard Time'', ''America/Indiana/Winamac''),
     (''Eastern Standard Time'', ''America/Kentucky/Monticello''),
     (''Eastern Standard Time'', ''America/Louisville''),
     (''Eastern Standard Time'', ''EST5EDT''),
     (''Eastern Standard Time (Mexico)'', ''America/Cancun''),
     (''Egypt Standard Time'', ''Africa/Cairo''),
     (''Ekaterinburg Standard Time'', ''Asia/Yekaterinburg''),
     (''FLE Standard Time'', ''Europe/Kiev''),
     (''FLE Standard Time'', ''Europe/Mariehamn''),
     (''FLE Standard Time'', ''Europe/Sofia''),
     (''FLE Standard Time'', ''Europe/Tallinn''),
     (''FLE Standard Time'', ''Europe/Helsinki''),
     (''FLE Standard Time'', ''Europe/Vilnius''),
     (''FLE Standard Time'', ''Europe/Riga''),
     (''FLE Standard Time'', ''Europe/Uzhgorod''),
     (''FLE Standard Time'', ''Europe/Zaporozhye''),
     (''Fiji Standard Time'', ''Pacific/Fiji''),
     (''GMT Standard Time'', ''Europe/London''),
     (''GMT Standard Time'', ''Atlantic/Canary''),
     (''GMT Standard Time'', ''Atlantic/Faeroe''),
     (''GMT Standard Time'', ''Europe/Guernsey''),
     (''GMT Standard Time'', ''Europe/Dublin''),
     (''GMT Standard Time'', ''Europe/Isle_of_Man''),
     (''GMT Standard Time'', ''Europe/Jersey''),
     (''GMT Standard Time'', ''Europe/Lisbon''),
     (''GMT Standard Time'', ''Atlantic/Madeira''),
     (''GTB Standard Time'', ''Europe/Bucharest''),
     (''GTB Standard Time'', ''Asia/Nicosia''),
     (''GTB Standard Time'', ''Europe/Athens''),
     (''Georgian Standard Time'', ''Asia/Tbilisi''),
     (''Greenland Standard Time'', ''America/Godthab''),
     (''Greenwich Standard Time'', ''Atlantic/Reykjavik''),
     (''Greenwich Standard Time'', ''Africa/Ouagadougou''),
     (''Greenwich Standard Time'', ''Africa/Abidjan''),
     (''Greenwich Standard Time'', ''Africa/Accra''),
     (''Greenwich Standard Time'', ''Africa/Banjul''),
     (''Greenwich Standard Time'', ''Africa/Conakry''),
     (''Greenwich Standard Time'', ''Africa/Bissau''),
     (''Greenwich Standard Time'', ''Africa/Monrovia''),
     (''Greenwich Standard Time'', ''Africa/Bamako''),
     (''Greenwich Standard Time'', ''Africa/Nouakchott''),
     (''Greenwich Standard Time'', ''Atlantic/St_Helena''),
     (''Greenwich Standard Time'', ''Africa/Freetown''),
     (''Greenwich Standard Time'', ''Africa/Dakar''),
     (''Greenwich Standard Time'', ''Africa/Sao_Tome''),
     (''Greenwich Standard Time'', ''Africa/Lome''),
     (''Haiti Standard Time'', ''America/Port-au-Prince''),
     (''Hawaiian Standard Time'', ''Pacific/Honolulu''),
     (''Hawaiian Standard Time'', ''Pacific/Rarotonga''),
     (''Hawaiian Standard Time'', ''Pacific/Tahiti''),
     (''Hawaiian Standard Time'', ''Pacific/Johnston''),
     (''Hawaiian Standard Time'', ''Etc/GMT+10''),
     (''India Standard Time'', ''Asia/Calcutta''),
     (''Iran Standard Time'', ''Asia/Tehran''),
     (''Israel Standard Time'', ''Asia/Jerusalem''),
     (''Jordan Standard Time'', ''Asia/Amman''),
     (''Kaliningrad Standard Time'', ''Europe/Kaliningrad''),
     (''Korea Standard Time'', ''Asia/Seoul''),
     (''Libya Standard Time'', ''Africa/Tripoli''),
     (''Line Islands Standard Time'', ''Pacific/Kiritimati''),
     (''Line Islands Standard Time'', ''Etc/GMT-14''),
     (''Lord Howe Standard Time'', ''Australia/Lord_Howe''),
     (''Magadan Standard Time'', ''Asia/Magadan''),
     (''Marquesas Standard Time'', ''Pacific/Marquesas''),
     (''Mauritius Standard Time'', ''Indian/Mauritius''),
     (''Mauritius Standard Time'', ''Indian/Reunion''),
     (''Mauritius Standard Time'', ''Indian/Mahe''),
     (''Middle East Standard Time'', ''Asia/Beirut''),
     (''Montevideo Standard Time'', ''America/Montevideo''),
     (''Morocco Standard Time'', ''Africa/Casablanca''),
     (''Morocco Standard Time'', ''Africa/El_Aaiun''),
     (''Mountain Standard Time'', ''America/Denver''),
     (''Mountain Standard Time'', ''America/Edmonton''),
     (''Mountain Standard Time'', ''America/Cambridge_Bay''),
     (''Mountain Standard Time'', ''America/Inuvik''),
     (''Mountain Standard Time'', ''America/Yellowknife''),
     (''Mountain Standard Time'', ''America/Ojinaga''),
     (''Mountain Standard Time'', ''America/Boise''),
     (''Mountain Standard Time'', ''MST7MDT''),
     (''Mountain Standard Time (Mexico)'', ''America/Chihuahua''),
     (''Mountain Standard Time (Mexico)'', ''America/Mazatlan''),
     (''Myanmar Standard Time'', ''Asia/Rangoon''),
     (''Myanmar Standard Time'', ''Indian/Cocos''),
     (''N. Central Asia Standard Time'', ''Asia/Novosibirsk''),
     (''N. Central Asia Standard Time'', ''Asia/Omsk''),
     (''Namibia Standard Time'', ''Africa/Windhoek''),
     (''Nepal Standard Time'', ''Asia/Katmandu''),
     (''New Zealand Standard Time'', ''Pacific/Auckland''),
     (''New Zealand Standard Time'', ''Antarctica/McMurdo''),
     (''Newfoundland Standard Time'', ''America/St_Johns''),
     (''Norfolk Standard Time'', ''Pacific/Norfolk''),
     (''North Asia East Standard Time'', ''Asia/Irkutsk''),
     (''North Asia Standard Time'', ''Asia/Krasnoyarsk''),
     (''North Asia Standard Time'', ''Asia/Novokuznetsk''),
     (''North Korea Standard Time'', ''Asia/Pyongyang''),
     (''Pacific SA Standard Time'', ''America/Santiago''),
     (''Pacific SA Standard Time'', ''Antarctica/Palmer''),
     (''Pacific Standard Time'', ''America/Los_Angeles''),
     (''Pacific Standard Time'', ''America/Vancouver''),
     (''Pacific Standard Time'', ''America/Dawson''),
     (''Pacific Standard Time'', ''America/Whitehorse''),
     (''Pacific Standard Time'', ''PST8PDT''),
     (''Pacific Standard Time (Mexico)'', ''America/Tijuana''),
     (''Pacific Standard Time (Mexico)'', ''America/Santa_Isabel''),
     (''Pakistan Standard Time'', ''Asia/Karachi''),
     (''Paraguay Standard Time'', ''America/Asuncion''),
     (''Romance Standard Time'', ''Europe/Paris''),
     (''Romance Standard Time'', ''Europe/Brussels''),
     (''Romance Standard Time'', ''Europe/Copenhagen''),
     (''Romance Standard Time'', ''Europe/Madrid''),
     (''Romance Standard Time'', ''Africa/Ceuta''),
     (''Russia Time Zone 10'', ''Asia/Srednekolymsk''),
     (''Russia Time Zone 11'', ''Asia/Kamchatka''),
     (''Russia Time Zone 11'', ''Asia/Anadyr''),
     (''Russia Time Zone 3'', ''Europe/Samara''),
     (''Russian Standard Time'', ''Europe/Moscow''),
     (''Russian Standard Time'', ''Europe/Kirov''),
     (''Russian Standard Time'', ''Europe/Simferopol''),
     (''Russian Standard Time'', ''Europe/Volgograd''),
     (''SA Eastern Standard Time'', ''America/Cayenne''),
     (''SA Eastern Standard Time'', ''Antarctica/Rothera''),
     (''SA Eastern Standard Time'', ''America/Fortaleza''),
     (''SA Eastern Standard Time'', ''America/Belem''),
     (''SA Eastern Standard Time'', ''America/Maceio''),
     (''SA Eastern Standard Time'', ''America/Recife''),
     (''SA Eastern Standard Time'', ''America/Santarem''),
     (''SA Eastern Standard Time'', ''Atlantic/Stanley''),
     (''SA Eastern Standard Time'', ''America/Paramaribo''),
     (''SA Eastern Standard Time'', ''Etc/GMT+3''),
     (''SA Pacific Standard Time'', ''America/Bogota''),
     (''SA Pacific Standard Time'', ''America/Rio_Branco''),
     (''SA Pacific Standard Time'', ''America/Eirunepe''),
     (''SA Pacific Standard Time'', ''America/Coral_Harbour''),
     (''SA Pacific Standard Time'', ''America/Guayaquil''),
     (''SA Pacific Standard Time'', ''America/Jamaica''),
     (''SA Pacific Standard Time'', ''America/Cayman''),
     (''SA Pacific Standard Time'', ''America/Panama''),
     (''SA Pacific Standard Time'', ''America/Lima''),
     (''SA Pacific Standard Time'', ''Etc/GMT+5''),
     (''SA Western Standard Time'', ''America/La_Paz''),
     (''SA Western Standard Time'', ''America/Antigua''),
     (''SA Western Standard Time'', ''America/Anguilla''),
     (''SA Western Standard Time'', ''America/Aruba''),
     (''SA Western Standard Time'', ''America/Barbados''),
     (''SA Western Standard Time'', ''America/St_Barthelemy''),
     (''SA Western Standard Time'', ''America/Kralendijk''),
     (''SA Western Standard Time'', ''America/Manaus''),
     (''SA Western Standard Time'', ''America/Boa_Vista''),
     (''SA Western Standard Time'', ''America/Porto_Velho''),
     (''SA Western Standard Time'', ''America/Blanc-Sablon''),
     (''SA Western Standard Time'', ''America/Curacao''),
     (''SA Western Standard Time'', ''America/Dominica''),
     (''SA Western Standard Time'', ''America/Santo_Domingo''),
     (''SA Western Standard Time'', ''America/Grenada''),
     (''SA Western Standard Time'', ''America/Guadeloupe''),
     (''SA Western Standard Time'', ''America/Guyana''),
     (''SA Western Standard Time'', ''America/St_Kitts''),
     (''SA Western Standard Time'', ''America/St_Lucia''),
     (''SA Western Standard Time'', ''America/Marigot''),
     (''SA Western Standard Time'', ''America/Martinique''),
     (''SA Western Standard Time'', ''America/Montserrat''),
     (''SA Western Standard Time'', ''America/Puerto_Rico''),
     (''SA Western Standard Time'', ''America/Lower_Princes''),
     (''SA Western Standard Time'', ''America/Port_of_Spain''),
     (''SA Western Standard Time'', ''America/St_Vincent''),
     (''SA Western Standard Time'', ''America/Tortola''),
     (''SA Western Standard Time'', ''America/St_Thomas''),
     (''SA Western Standard Time'', ''Etc/GMT+4''),
     (''SE Asia Standard Time'', ''Asia/Bangkok''),
     (''SE Asia Standard Time'', ''Antarctica/Davis''),
     (''SE Asia Standard Time'', ''Indian/Christmas''),
     (''SE Asia Standard Time'', ''Asia/Jakarta''),
     (''SE Asia Standard Time'', ''Asia/Pontianak''),
     (''SE Asia Standard Time'', ''Asia/Phnom_Penh''),
     (''SE Asia Standard Time'', ''Asia/Vientiane''),
     (''SE Asia Standard Time'', ''Asia/Saigon''),
     (''SE Asia Standard Time'', ''Etc/GMT-7''),
     (''Saint Pierre Standard Time'', ''America/Miquelon''),
     (''Sakhalin Standard Time'', ''Asia/Sakhalin''),
     (''Samoa Standard Time'', ''Pacific/Apia''),
     (''Singapore Standard Time'', ''Asia/Singapore''),
     (''Singapore Standard Time'', ''Asia/Brunei''),
     (''Singapore Standard Time'', ''Asia/Makassar''),
     (''Singapore Standard Time'', ''Asia/Kuala_Lumpur''),
     (''Singapore Standard Time'', ''Asia/Kuching''),
     (''Singapore Standard Time'', ''Asia/Manila''),
     (''Singapore Standard Time'', ''Etc/GMT-8''),
     (''South Africa Standard Time'', ''Africa/Johannesburg''),
     (''South Africa Standard Time'', ''Africa/Bujumbura''),
     (''South Africa Standard Time'', ''Africa/Gaborone''),
     (''South Africa Standard Time'', ''Africa/Lubumbashi''),
     (''South Africa Standard Time'', ''Africa/Maseru''),
     (''South Africa Standard Time'', ''Africa/Blantyre''),
     (''South Africa Standard Time'', ''Africa/Maputo''),
     (''South Africa Standard Time'', ''Africa/Kigali''),
     (''South Africa Standard Time'', ''Africa/Mbabane''),
     (''South Africa Standard Time'', ''Africa/Lusaka''),
     (''South Africa Standard Time'', ''Africa/Harare''),
     (''South Africa Standard Time'', ''Etc/GMT-2''),
     (''Sri Lanka Standard Time'', ''Asia/Colombo''),
     (''Syria Standard Time'', ''Asia/Damascus''),
     (''Taipei Standard Time'', ''Asia/Taipei''),
     (''Tasmania Standard Time'', ''Australia/Hobart''),
     (''Tasmania Standard Time'', ''Australia/Currie''),
     (''Tocantins Standard Time'', ''America/Araguaina''),
     (''Tokyo Standard Time'', ''Asia/Tokyo''),
     (''Tokyo Standard Time'', ''Asia/Jayapura''),
     (''Tokyo Standard Time'', ''Pacific/Palau''),
     (''Tokyo Standard Time'', ''Asia/Dili''),
     (''Tokyo Standard Time'', ''Etc/GMT-9''),
     (''Tomsk Standard Time'', ''Asia/Tomsk''),
     (''Tonga Standard Time'', ''Pacific/Tongatapu''),
     (''Tonga Standard Time'', ''Pacific/Enderbury''),
     (''Tonga Standard Time'', ''Pacific/Fakaofo''),
     (''Tonga Standard Time'', ''Etc/GMT-13''),
     (''Transbaikal Standard Time'', ''Asia/Chita''),
     (''Turkey Standard Time'', ''Europe/Istanbul''),
     (''Turks And Caicos Standard Time'', ''America/Grand_Turk''),
     (''US Eastern Standard Time'', ''America/Indianapolis''),
     (''US Eastern Standard Time'', ''America/Indiana/Marengo''),
     (''US Eastern Standard Time'', ''America/Indiana/Vevay''),
     (''US Mountain Standard Time'', ''America/Phoenix''),
     (''US Mountain Standard Time'', ''America/Dawson_Creek''),
     (''US Mountain Standard Time'', ''America/Creston''),
     (''US Mountain Standard Time'', ''America/Fort_Nelson''),
     (''US Mountain Standard Time'', ''America/Hermosillo''),
     (''US Mountain Standard Time'', ''Etc/GMT+7''),
     (''UTC'', ''Etc/GMT''),
     (''UTC'', ''America/Danmarkshavn''),
     (''UTC+12'', ''Etc/GMT-12''),
     (''UTC+12'', ''Pacific/Tarawa''),
     (''UTC+12'', ''Pacific/Majuro''),
     (''UTC+12'', ''Pacific/Kwajalein''),
     (''UTC+12'', ''Pacific/Nauru''),
     (''UTC+12'', ''Pacific/Funafuti''),
     (''UTC+12'', ''Pacific/Wake''),
     (''UTC+12'', ''Pacific/Wallis''),
     (''UTC-02'', ''Etc/GMT+2''),
     (''UTC-02'', ''America/Noronha''),
     (''UTC-02'', ''Atlantic/South_Georgia''),
     (''UTC-08'', ''Etc/GMT+8''),
     (''UTC-08'', ''Pacific/Pitcairn''),
     (''UTC-09'', ''Etc/GMT+9''),
     (''UTC-09'', ''Pacific/Gambier''),
     (''UTC-11'', ''Etc/GMT+11''),
     (''UTC-11'', ''Pacific/Pago_Pago''),
     (''UTC-11'', ''Pacific/Niue''),
     (''UTC-11'', ''Pacific/Midway''),
     (''Ulaanbaatar Standard Time'', ''Asia/Ulaanbaatar''),
     (''Ulaanbaatar Standard Time'', ''Asia/Choibalsan''),
     (''Venezuela Standard Time'', ''America/Caracas''),
     (''Vladivostok Standard Time'', ''Asia/Vladivostok''),
     (''Vladivostok Standard Time'', ''Asia/Ust-Nera''),
     (''W. Australia Standard Time'', ''Australia/Perth''),
     (''W. Australia Standard Time'', ''Antarctica/Casey''),
     (''W. Central Africa Standard Time'', ''Africa/Lagos''),
     (''W. Central Africa Standard Time'', ''Africa/Luanda''),
     (''W. Central Africa Standard Time'', ''Africa/Porto-Novo''),
     (''W. Central Africa Standard Time'', ''Africa/Kinshasa''),
     (''W. Central Africa Standard Time'', ''Africa/Bangui''),
     (''W. Central Africa Standard Time'', ''Africa/Brazzaville''),
     (''W. Central Africa Standard Time'', ''Africa/Douala''),
     (''W. Central Africa Standard Time'', ''Africa/Algiers''),
     (''W. Central Africa Standard Time'', ''Africa/Libreville''),
     (''W. Central Africa Standard Time'', ''Africa/Malabo''),
     (''W. Central Africa Standard Time'', ''Africa/Niamey''),
     (''W. Central Africa Standard Time'', ''Africa/Ndjamena''),
     (''W. Central Africa Standard Time'', ''Africa/Tunis''),
     (''W. Central Africa Standard Time'', ''Etc/GMT-1''),
     (''W. Europe Standard Time'', ''Europe/Berlin''),
     (''W. Europe Standard Time'', ''Europe/Andorra''),
     (''W. Europe Standard Time'', ''Europe/Vienna''),
     (''W. Europe Standard Time'', ''Europe/Zurich''),
     (''W. Europe Standard Time'', ''Europe/Busingen''),
     (''W. Europe Standard Time'', ''Europe/Gibraltar''),
     (''W. Europe Standard Time'', ''Europe/Rome''),
     (''W. Europe Standard Time'', ''Europe/Vaduz''),
     (''W. Europe Standard Time'', ''Europe/Luxembourg''),
     (''W. Europe Standard Time'', ''Europe/Monaco''),
     (''W. Europe Standard Time'', ''Europe/Malta''),
     (''W. Europe Standard Time'', ''Europe/Amsterdam''),
     (''W. Europe Standard Time'', ''Europe/Oslo''),
     (''W. Europe Standard Time'', ''Europe/Stockholm''),
     (''W. Europe Standard Time'', ''Arctic/Longyearbyen''),
     (''W. Europe Standard Time'', ''Europe/San_Marino''),
     (''W. Europe Standard Time'', ''Europe/Vatican''),
     (''W. Mongolia Standard Time'', ''Asia/Hovd''),
     (''West Asia Standard Time'', ''Asia/Tashkent''),
     (''West Asia Standard Time'', ''Antarctica/Mawson''),
     (''West Asia Standard Time'', ''Asia/Oral''),
     (''West Asia Standard Time'', ''Asia/Aqtau''),
     (''West Asia Standard Time'', ''Asia/Aqtobe''),
     (''West Asia Standard Time'', ''Indian/Maldives''),
     (''West Asia Standard Time'', ''Indian/Kerguelen''),
     (''West Asia Standard Time'', ''Asia/Dushanbe''),
     (''West Asia Standard Time'', ''Asia/Ashgabat''),
     (''West Asia Standard Time'', ''Asia/Samarkand''),
     (''West Asia Standard Time'', ''Etc/GMT-5''),
     (''West Bank Standard Time'', ''Asia/Hebron''),
     (''West Bank Standard Time'', ''Asia/Gaza''),
     (''West Pacific Standard Time'', ''Pacific/Port_Moresby''),
     (''West Pacific Standard Time'', ''Antarctica/DumontDUrville''),
     (''West Pacific Standard Time'', ''Pacific/Truk''),
     (''West Pacific Standard Time'', ''Pacific/Guam''),
     (''West Pacific Standard Time'', ''Pacific/Saipan''),
     (''West Pacific Standard Time'', ''Etc/GMT-10''),
     (''Yakutsk Standard Time'', ''Asia/Yakutsk''),
     (''Yakutsk Standard Time'', ''Asia/Khandyga'')]"

subsection \<open>Setting the zone and asking for the offset\<close>

text \<open>
  \<^verbatim>\<open>TimeZone::androidTimeZoneSet\<close>, lines 1341-1380: the engine afterwards and the returned
  code, \<^verbatim>\<open>mAndroidTimeZoneInit ? 0 : -1\<close>.
\<close>

definition androidTimeZoneSet :: "host \<Rightarrow> TimeZone \<Rightarrow> string \<Rightarrow> (TimeZone \<times> int) outcome" where
  "androidTimeZoneSet h e tzname =
     (let e0 = e\<lparr>mTimeZoneName := tzname, mAndroidTimeZoneInit := 0,
                  resolver_calls := Suc (resolver_calls e)\<rparr>
      in obind
           (if win32 h then Returns (androidTimeZoneSet_win32 win32_timezones h e0 tzname)
            else
              obind (setAndroidTimeZoneUsingZdump h e0) (\<lambda>(e1, zdump).
                if zdump \<noteq> 0
                then obind (setAndroidTimeZoneUsingDate h e1) (\<lambda>(e2, date).
                       if date \<noteq> 0 then Returns e2
                       else Returns (e2\<lparr>mAndroidTimeZoneInit := 1\<rparr>))
                else Returns (e1\<lparr>mAndroidTimeZoneInit := 1\<rparr>)))
           (\<lambda>e'. Returns (e', if mAndroidTimeZoneInit e' \<noteq> 0 then 0 else - 1)))"

text \<open>
  \<^verbatim>\<open>TimeZone::androidTimeZoneOffset\<close>, lines 1023-1038: the returned offset and the engine
  afterwards. The value returned by \<^verbatim>\<open>androidTimeZoneSet\<close> is not read.
\<close>

definition androidTimeZoneOffset :: "host \<Rightarrow> TimeZone \<Rightarrow> int \<Rightarrow> (int \<times> TimeZone) outcome" where
  "androidTimeZoneOffset h e timeNow =
     (if mAndroidTimeZoneInit e \<noteq> 0 then
        (let year = tm_year (host_gmtime h timeNow) + 1900
         in if year \<noteq> mCurrentYear e then
              obind (androidTimeZoneSet h (e\<lparr>mCurrentYear := year\<rparr>) (mTimeZoneName e))
                (\<lambda>(e', ignored). Returns (getTimeZoneDiff h e' timeNow, e'))
            else Returns (getTimeZoneDiff h e timeNow, e))
      else
        (let local = host_localtime h timeNow;
             utc = host_gmtime h timeNow
         in Returns (diffTime local utc, e)))"

text \<open>
  The file-scope variables of the discoverer (lines 53-55) and the process-wide engine
  \<^verbatim>\<open>sAndroidTimeZone\<close> (line 1382). \<^verbatim>\<open>android_timezone\<close> is either \<^verbatim>\<open>NULL\<close> or points to a
  string.
\<close>

record globals =
  android_timezone0 :: string
  android_timezone :: "string option"
  android_timezone_init :: int
  sAndroidTimeZone :: TimeZone

text \<open>
  \<^verbatim>\<open>timezone_set\<close>, lines 1386-1402, with \<^verbatim>\<open>sizeof(android_timezone0) = 256\<close>: the variables
  afterwards and the returned code.
\<close>

definition timezone_set :: "host \<Rightarrow> globals \<Rightarrow> string option \<Rightarrow> (globals \<times> int) outcome" where
  "timezone_set h g tzname =
     (let g0 = g\<lparr>android_timezone_init := 0\<rparr>
      in if \<not> check_timezone_is_zoneinfo tzname then Returns (g0, - 1)
         else if int (length (the tzname)) > 256 - 1 then Returns (g0, - 1)
         else
           (let g1 = g0\<lparr>android_timezone0 := the tzname, android_timezone := Some (the tzname)\<rparr>
            in obind (androidTimeZoneSet h (sAndroidTimeZone g1) (the tzname)) (\<lambda>(e', rc).
                 if rc \<noteq> 0 then Returns (g1\<lparr>sAndroidTimeZone := e'\<rparr>, - 1)
                 else Returns (g1\<lparr>sAndroidTimeZone := e', android_timezone_init := 1\<rparr>, 0))))"

subsection \<open>Comparing a zoneinfo file with the localtime file\<close>






subsection \<open>The C library's conversion to UTC\<close>

text \<open>
  \<^verbatim>\<open>gmtime\<close> on a POSIX host: the broken-down UTC time of a count of seconds since
  1970-01-01, in the proleptic Gregorian calendar.
\<close>

definition gmtime_utc :: "int \<Rightarrow> tm" where
  "gmtime_utc t =
     (let days = t div 86400;
          secs = t mod 86400;
          z = days + 719468;
          era = z div 146097;
          doe = z - era * 146097;
          yoe = (doe - doe div 1460 + doe div 36524 - doe div 146096) div 365;
          doy = doe - (365 * yoe + yoe div 4 - yoe div 100);
          mp = (5 * doy + 2) div 153;
          d = doy - (153 * mp + 2) div 5 + 1;
          m = (if mp < 10 then mp + 3 else mp - 9);
          y = yoe + era * 400 + (if m \<le> 2 then 1 else 0)
      in \<lparr>tm_sec = secs mod 60, tm_min = (secs div 60) mod 60, tm_hour = secs div 3600,
          tm_mday = d, tm_mon = m - 1, tm_year = y - 1900\<rparr>)"

subsection \<open>Notions used by the statements\<close>

text \<open>
  The members of the engine that a resolution strategy does not write: the call counter,
  the year, the zone name and the initialisation flag.
\<close>

definition same_identity :: "TimeZone \<Rightarrow> TimeZone \<Rightarrow> bool" where
  "same_identity e e' \<longleftrightarrow>
     resolver_calls e' = resolver_calls e \<and> mCurrentYear e' = mCurrentYear e \<and>
     mTimeZoneName e' = mTimeZoneName e \<and> mAndroidTimeZoneInit e' = mAndroidTimeZoneInit e"



subsection \<open>Example hosts and engines\<close>

text \<open>The sample output of \<^verbatim>\<open>zdump -v America/New_York | grep 2016\<close> quoted at lines 998-1001.\<close>

definition zdump_sample :: string where
  "zdump_sample =
     ''America/New_York  Sun Mar 13 06:59:59 2016 UT = Sun Mar 13 01:59:59 2016 EST isdst=0 [gmtoff=-18000]'' @ [CHR 0x0A] @
     ''America/New_York  Sun Mar 13 07:00:00 2016 UT = Sun Mar 13 03:00:00 2016 EDT isdst=1 [gmtoff=-14400]'' @ [CHR 0x0A] @
     ''America/New_York  Sun Nov  6 05:59:59 2016 UT = Sun Nov  6 01:59:59 2016 EDT isdst=1 [gmtoff=-14400]'' @ [CHR 0x0A] @
     ''America/New_York  Sun Nov  6 06:00:00 2016 UT = Sun Nov  6 01:00:00 2016 EST isdst=0 [gmtoff=-18000]'' @ [CHR 0x0A]"

definition command_ok :: "string \<Rightarrow> cmd_result" where
  "command_ok out = \<lparr>tempfile_created = True, commandRan = True, exitCode = 0, output_file = out\<rparr>"

definition command_failed :: cmd_result where
  "command_failed = \<lparr>tempfile_created = True, commandRan = True, exitCode = 1, output_file = []\<rparr>"

text \<open>
  A POSIX host one hour east of Greenwich. Its zdump knows New York in 2016 only; its
  \<^verbatim>\<open>date\<close> knows the offset of Kolkata only.
\<close>

definition posix_host :: host where
  "posix_host =
     \<lparr>host_gmtime = gmtime_utc,
      host_localtime = (\<lambda>t. gmtime_utc (t + 3600)),
      win32 = False,
      run_zdump = (\<lambda>zone year.
         if zone = ''America/New_York'' \<and> year = 2016 then command_ok zdump_sample
         else command_failed),
      run_date = (\<lambda>zone.
         if zone = ''Asia/Kolkata'' then command_ok (''+0530'' @ [CHR 0x0A]) else command_failed),
      registry_tzi = (\<lambda>name. None)\<rparr>"

definition tm_zero :: tm where
  "tm_zero = \<lparr>tm_sec = 0, tm_min = 0, tm_hour = 0, tm_mday = 0, tm_mon = 0, tm_year = 0\<rparr>"

text \<open>An engine as the constructor leaves it in the given year, and two resolved engines.\<close>

definition fresh_engine :: "int \<Rightarrow> TimeZone" where
  "fresh_engine year =
     \<lparr>mStandardDateUtc = tm_zero, mDaylightDateUtc = tm_zero, mStandardOffset = 0,
      mDaylightOffset = 0, mCurrentYear = year, mAndroidTimeZoneInit = 0, mTimeZoneName = [],
      resolver_calls = 0\<rparr>"

definition new_york_2016 :: TimeZone where
  "new_york_2016 =
     \<lparr>mStandardDateUtc = \<lparr>tm_sec = 0, tm_min = 0, tm_hour = 7, tm_mday = 13, tm_mon = 2, tm_year = 116\<rparr>,
      mDaylightDateUtc = \<lparr>tm_sec = 0, tm_min = 0, tm_hour = 6, tm_mday = 6, tm_mon = 10, tm_year = 116\<rparr>,
      mStandardOffset = - 18000, mDaylightOffset = 3600, mCurrentYear = 2016,
      mAndroidTimeZoneInit = 1, mTimeZoneName = ''America/New_York'', resolver_calls = 1\<rparr>"

definition kolkata_2016 :: TimeZone where
  "kolkata_2016 =
     \<lparr>mStandardDateUtc = tm_zero, mDaylightDateUtc = tm_zero, mStandardOffset = 19800,
      mDaylightOffset = 0, mCurrentYear = 2016, mAndroidTimeZoneInit = 1,
      mTimeZoneName = ''Asia/Kolkata'', resolver_calls = 1\<rparr>"

text \<open>The New York engine after a failed resolution for 2017.\<close>

definition new_york_2017_failed :: TimeZone where
  "new_york_2017_failed =
     new_york_2016\<lparr>mCurrentYear := 2017, mAndroidTimeZoneInit := 0, resolver_calls := 2\<rparr>"

definition globals_with :: "TimeZone \<Rightarrow> globals" where
  "globals_with e =
     \<lparr>android_timezone0 = mTimeZoneName e, android_timezone = Some (mTimeZoneName e),
      android_timezone_init = 1, sAndroidTimeZone = e\<rparr>"





text \<open>
  A Windows host whose registry holds the record of \<open>AUS Eastern Standard Time\<close>: daylight
  bias of -60 minutes, standard time from the first Sunday of April at 03:00, daylight time
  from the first Sunday of October at 02:00.
\<close>

definition sydney_tzi :: REG_TZI_FORMAT where
  "sydney_tzi =
     \<lparr>Bias = - 600, StandardBias = 0, DaylightBias = - 60,
      StandardDate = \<lparr>wYear = 0, wMonth = 4, wDayOfWeek = 0, wDay = 1, wHour = 3,
                      wMinute = 0, wSecond = 0, wMilliseconds = 0\<rparr>,
      DaylightDate = \<lparr>wYear = 0, wMonth = 10, wDayOfWeek = 0, wDay = 1, wHour = 2,
                      wMinute = 0, wSecond = 0, wMilliseconds = 0\<rparr>\<rparr>"

definition win32_host :: host where
  "win32_host =
     \<lparr>host_gmtime = gmtime_utc,
      host_localtime = (\<lambda>t. gmtime_utc (t + 36000)),
      win32 = True,
      run_zdump = (\<lambda>zone year. command_failed),
      run_date = (\<lambda>zone. command_failed),
      registry_tzi = (\<lambda>name. if name = ''AUS Eastern Standard Time'' then Some sydney_tzi else None)\<rparr>"

text \<open>
  Two outputs of four lines that do not have the shape of the sample. The first is what
  \<^verbatim>\<open>zdump -v Asia/Kolkata | grep 2036\<close> prints with a zdump that brackets its output with the
  extreme 64-bit times: the zone has no transition in 2036, and the digits 2036 occur in
  each of the four bracket lines. The second is the sample with a day that is not a number.
\<close>

definition zdump_kolkata_2036 :: string where
  "zdump_kolkata_2036 =
     ''Asia/Kolkata  -9223372036854775808 = NULL'' @ [CHR 0x0A] @
     ''Asia/Kolkata  -9223372036854775807 = NULL'' @ [CHR 0x0A] @
     ''Asia/Kolkata  9223372036854775806 = NULL'' @ [CHR 0x0A] @
     ''Asia/Kolkata  9223372036854775807 = NULL'' @ [CHR 0x0A]"

definition zdump_bad_day :: string where
  "zdump_bad_day =
     ''America/New_York  Sun Mar 13 06:59:59 2016 UT = Sun Mar 13 01:59:59 2016 EST isdst=0 [gmtoff=-18000]'' @ [CHR 0x0A] @
     ''America/New_York  Sun Mar ?? 07:00:00 2016 UT = Sun Mar 13 03:00:00 2016 EDT isdst=1 [gmtoff=-14400]'' @ [CHR 0x0A] @
     ''America/New_York  Sun Nov  6 05:59:59 2016 UT = Sun Nov  6 01:59:59 2016 EDT isdst=1 [gmtoff=-14400]'' @ [CHR 0x0A] @
     ''America/New_York  Sun Nov  6 06:00:00 2016 UT = Sun Nov  6 01:00:00 2016 EST isdst=0 [gmtoff=-18000]'' @ [CHR 0x0A]"

definition host_with_zdump :: "string \<Rightarrow> host" where
  "host_with_zdump out = posix_host\<lparr>run_zdump := (\<lambda>zone year. command_ok out)\<rparr>"

text \<open>
  The output of \<^verbatim>\<open>zdump -v Australia/Sydney | grep 2016\<close>: daylight time ends on 2 April at
  16:00:00 UTC and starts again on 1 October at 16:00:00 UTC. The engine that the zdump
  strategy builds from it.
\<close>

definition zdump_sydney_2016 :: string where
  "zdump_sydney_2016 =
     ''Australia/Sydney  Sat Apr  2 15:59:59 2016 UT = Sun Apr  3 02:59:59 2016 AEDT isdst=1 gmtoff=39600'' @ [CHR 0x0A] @
     ''Australia/Sydney  Sat Apr  2 16:00:00 2016 UT = Sun Apr  3 02:00:00 2016 AEST isdst=0 gmtoff=36000'' @ [CHR 0x0A] @
     ''Australia/Sydney  Sat Oct  1 15:59:59 2016 UT = Sun Oct  2 01:59:59 2016 AEST isdst=0 gmtoff=36000'' @ [CHR 0x0A] @
     ''Australia/Sydney  Sat Oct  1 16:00:00 2016 UT = Sun Oct  2 03:00:00 2016 AEDT isdst=1 gmtoff=39600'' @ [CHR 0x0A]"

definition sydney_2016 :: TimeZone where
  "sydney_2016 =
     \<lparr>mStandardDateUtc = \<lparr>tm_sec = 0, tm_min = 0, tm_hour = 16, tm_mday = 2, tm_mon = 3, tm_year = 116\<rparr>,
      mDaylightDateUtc = \<lparr>tm_sec = 0, tm_min = 0, tm_hour = 16, tm_mday = 1, tm_mon = 9, tm_year = 116\<rparr>,
      mStandardOffset = 39600, mDaylightOffset = - 3600, mCurrentYear = 2016,
      mAndroidTimeZoneInit = 1, mTimeZoneName = ''Australia/Sydney'', resolver_calls = 1\<rparr>"

section \<open>Proofs\<close>

subsection \<open>What the resolver leaves alone\<close>

lemma obind_Returns_iff:
  "obind m f = Returns y \<longleftrightarrow> (\<exists>x. m = Returns x \<and> f x = Returns y)"
  by (cases m) (simp_all add: obind_def)

lemma zdump_round_identity:
  assumes "zdump_round i rule (e, a, b) = Returns r"
  shows "case r of Inl e' \<Rightarrow> same_identity e e' | Inr (e', a', b') \<Rightarrow> same_identity e e'"
  using assms
  by (auto simp: zdump_round_def obind_Returns_iff same_identity_def Let_def split: if_splits prod.splits sum.splits)

lemma zdump_identity:
  assumes "setAndroidTimeZoneUsingZdump h e = Returns (e', rc)"
  shows "same_identity e e'"
proof -
  have refl: "same_identity e e" by (simp add: same_identity_def)
  show ?thesis
    using assms refl
    apply (simp add: setAndroidTimeZoneUsingZdump_def Let_def obind_Returns_iff split: if_splits)
    apply (elim exE conjE)
    subgoal for r1
      apply (cases r1)
      using zdump_round_identity [of 1 _ e 0 0 r1]
       apply simp
      apply (simp add: obind_Returns_iff)
      apply (elim exE conjE)
      subgoal for st1 r3
        apply (cases st1)
        subgoal for e1 a1 b1
          using zdump_round_identity [of 1 _ e 0 0 r1] zdump_round_identity [of 3 _ e1 a1 b1 r3]
          apply (cases r3)
          apply (auto simp: same_identity_def split: prod.splits)
          done
        done
      done
    done
qed

lemma date_identity:
  assumes "setAndroidTimeZoneUsingDate h e = Returns (e', rc)"
  shows "same_identity e e'"
  using assms
  by (auto simp: setAndroidTimeZoneUsingDate_def Let_def obind_Returns_iff same_identity_def split: if_splits)

lemma date_success_no_daylight:
  assumes "setAndroidTimeZoneUsingDate h e = Returns (e', 0)"
  shows "mDaylightOffset e' = 0"
  using assms
  by (auto simp: setAndroidTimeZoneUsingDate_def Let_def obind_Returns_iff split: if_splits)

lemma win32_identity:
  "resolver_calls (androidTimeZoneSet_win32 tbl h e n) = resolver_calls e"
  "mCurrentYear (androidTimeZoneSet_win32 tbl h e n) = mCurrentYear e"
  "mTimeZoneName (androidTimeZoneSet_win32 tbl h e n) = mTimeZoneName e"
  "mAndroidTimeZoneInit e = 0 \<Longrightarrow>
     mAndroidTimeZoneInit (androidTimeZoneSet_win32 tbl h e n) = 0 \<or>
     mAndroidTimeZoneInit (androidTimeZoneSet_win32 tbl h e n) = 1"
  by (simp_all add: androidTimeZoneSet_win32_def Let_def split: option.splits)

lemma androidTimeZoneSet_on_win32:
  assumes "win32 h"
  shows "androidTimeZoneSet h e n =
     (let e' = androidTimeZoneSet_win32 win32_timezones h
                 (e\<lparr>mTimeZoneName := n, mAndroidTimeZoneInit := 0,
                     resolver_calls := Suc (resolver_calls e)\<rparr>) n
      in Returns (e', if mAndroidTimeZoneInit e' \<noteq> 0 then 0 else - 1))"
  using assms by (simp add: androidTimeZoneSet_def Let_def obind_def)

lemma androidTimeZoneSet_effect:
  assumes "androidTimeZoneSet h e n = Returns (e', rc)"
  shows "resolver_calls e' = Suc (resolver_calls e)" "mCurrentYear e' = mCurrentYear e"
    "mTimeZoneName e' = n" "rc = (if mAndroidTimeZoneInit e' \<noteq> 0 then 0 else - 1)"
    "mAndroidTimeZoneInit e' = 0 \<or> mAndroidTimeZoneInit e' = 1"
proof -
  let ?e0 = "e\<lparr>mTimeZoneName := n, mAndroidTimeZoneInit := 0, resolver_calls := Suc (resolver_calls e)\<rparr>"
  have all: "resolver_calls e' = Suc (resolver_calls e) \<and> mCurrentYear e' = mCurrentYear e \<and>
    mTimeZoneName e' = n \<and> rc = (if mAndroidTimeZoneInit e' \<noteq> 0 then 0 else - 1) \<and>
    (mAndroidTimeZoneInit e' = 0 \<or> mAndroidTimeZoneInit e' = 1)"
  proof (cases "win32 h")
    case True
    then have "Returns (e', rc) = (let e'' = androidTimeZoneSet_win32 win32_timezones h ?e0 n
        in Returns (e'', if mAndroidTimeZoneInit e'' \<noteq> 0 then 0 else - 1))"
      using assms androidTimeZoneSet_on_win32 [of h e n] by simp
    then have "e' = androidTimeZoneSet_win32 win32_timezones h ?e0 n"
      and "rc = (if mAndroidTimeZoneInit e' \<noteq> 0 then 0 else - 1)"
      by (auto simp: Let_def)
    then show ?thesis
      using win32_identity [where tbl = win32_timezones and h = h and e = ?e0 and n = n] by simp
  next
    case False
    then show ?thesis
      using assms
      by (auto simp: androidTimeZoneSet_def Let_def obind_Returns_iff same_identity_def
          split: if_splits prod.splits dest!: zdump_identity date_identity)
  qed
  then show "resolver_calls e' = Suc (resolver_calls e)" "mCurrentYear e' = mCurrentYear e"
    "mTimeZoneName e' = n" "rc = (if mAndroidTimeZoneInit e' \<noteq> 0 then 0 else - 1)"
    "mAndroidTimeZoneInit e' = 0 \<or> mAndroidTimeZoneInit e' = 1"
    by simp_all
qed

subsection \<open>The validator\<close>

lemma segments_not_Nil: "segments s \<noteq> []"
  by (induction s) (auto split: list.splits)

lemma strchr_None_iff: "strchr s c = None \<longleftrightarrow> c \<notin> set s"
  by (induction s) auto

lemma segments_without_slash: "CHR ''/'' \<notin> set s \<Longrightarrow> segments s = [s]"
  by (induction s) auto

lemma segments_at_slash:
  "strchr s CHR ''/'' = Some r \<Longrightarrow> \<exists>p. segments s = p # segments (tl r)"
proof (induction s arbitrary: r)
  case Nil
  then show ?case by simp
next
  case (Cons c cs)
  show ?case
  proof (cases "c = CHR ''/''")
    case True
    with Cons.prems show ?thesis by auto
  next
    case False
    with Cons.prems have "strchr cs CHR ''/'' = Some r" by simp
    then obtain p where "segments cs = p # segments (tl r)"
      using Cons.IH by blast
    with False show ?thesis by simp
  qed
qed

text \<open>
  What the validator accepts: names of two or three segments whose last segment is not
  empty. The first segment, and the middle one of three, may be empty.
\<close>

lemma check_timezone_is_zoneinfo_segments:
  "check_timezone_is_zoneinfo (Some s) \<longleftrightarrow>
     (length (segments s) = 2 \<or> length (segments s) = 3) \<and> last (segments s) \<noteq> []"
proof (cases "strchr s CHR ''/''")
  case None
  then have "segments s = [s]" by (simp add: strchr_None_iff segments_without_slash)
  with None show ?thesis by (simp add: check_timezone_is_zoneinfo_def)
next
  case (Some r1)
  then obtain p1 where s1: "segments s = p1 # segments (tl r1)"
    using segments_at_slash by blast
  show ?thesis
  proof (cases "tl r1 = []")
    case True
    with Some s1 show ?thesis by (simp add: check_timezone_is_zoneinfo_def)
  next
    case ne1: False
    show ?thesis
    proof (cases "strchr (tl r1) CHR ''/''")
      case None
      then have "segments (tl r1) = [tl r1]" by (simp add: strchr_None_iff segments_without_slash)
      with None Some s1 ne1 show ?thesis by (simp add: check_timezone_is_zoneinfo_def)
    next
      case r2: (Some r2)
      then obtain p2 where s2: "segments (tl r1) = p2 # segments (tl r2)"
        using segments_at_slash by blast
      show ?thesis
      proof (cases "tl r2 = []")
        case True
        with Some r2 s1 s2 ne1 show ?thesis by (simp add: check_timezone_is_zoneinfo_def)
      next
        case ne2: False
        show ?thesis
        proof (cases "strchr (tl r2) CHR ''/''")
          case None
          then have "segments (tl r2) = [tl r2]"
            by (simp add: strchr_None_iff segments_without_slash)
          with None Some r2 s1 s2 ne1 ne2 show ?thesis
            by (simp add: check_timezone_is_zoneinfo_def)
        next
          case r3: (Some r3)
          then obtain p3 where s3: "segments (tl r2) = p3 # segments (tl r3)"
            using segments_at_slash by blast
          have "length (segments (tl r3)) > 0"
            using segments_not_Nil [of "tl r3"] by simp
          with r3 Some r2 s1 s2 s3 ne1 ne2 show ?thesis
            by (simp add: check_timezone_is_zoneinfo_def)
        qed
      qed
    qed
  qed
qed

text \<open>Every name of the form Area/Location or Area/Location/SubLocation is accepted.\<close>

lemma well_formed_names_accepted:
  "is_area_location s \<Longrightarrow> check_timezone_is_zoneinfo (Some s)"
  unfolding check_timezone_is_zoneinfo_segments is_area_location_def
  using segments_not_Nil [of s] by (auto simp: list_all_iff)

text \<open>
  Claim C2: the validator accepts a name exactly when it has the form Area/Location or
  Area/Location/SubLocation with every segment non-empty. The code does not look at what
  precedes the first slash or at what lies between the two slashes: it accepts \<open>/foo\<close>, whose
  first slash is at position 0, and \<open>a//b\<close>, whose middle segment is empty.
\<close>

theorem check_timezone_is_zoneinfo_empty_segment:
  "check_timezone_is_zoneinfo (Some ''/foo'') \<and> \<not> is_area_location ''/foo'' \<and>
   check_timezone_is_zoneinfo (Some ''a//b'') \<and> \<not> is_area_location ''a//b''"
  by (simp add: check_timezone_is_zoneinfo_def is_area_location_def)



lemma bounded_print_fits: "length s < avail \<Longrightarrow> bounded_print avail s = s"
  by (simp add: bounded_print_def)


subsection \<open>Differences of broken-down times\<close>

lemma div_pred:
  assumes "0 < k"
  shows "(y::int) div k = (y - 1) div k + (if y mod k = 0 then 1 else 0)"
proof (cases "y mod k = 0")
  case True
  have "y - 1 = k * (y div k - 1) + (k - 1)"
    using True mult_div_mod_eq [of k y] by (simp add: algebra_simps)
  then have "(y - 1) div k = y div k - 1"
    by (rule int_div_pos_eq) (use assms in simp_all)
  with True show ?thesis by simp
next
  case False
  have pos: "0 < y mod k"
    using False assms pos_mod_sign [of k y] by linarith
  have "y - 1 = k * (y div k) + (y mod k - 1)"
    using mult_div_mod_eq [of k y] by simp
  then have "(y - 1) div k = y div k"
  proof (rule int_div_pos_eq)
    show "0 \<le> y mod k - 1" using pos by simp
    show "y mod k - 1 < k" using pos_mod_bound [OF assms, of y] by simp
  qed
  with False show ?thesis by simp
qed

lemma mod_100_4: "(y::int) mod 100 = 0 \<Longrightarrow> y mod 4 = 0"
proof -
  assume "y mod 100 = 0"
  then have "100 dvd y" by (simp add: mod_eq_0_iff_dvd)
  moreover have "(4::int) dvd 100" by simp
  ultimately have "4 dvd y" by (rule dvd_trans [rotated])
  then show ?thesis by (simp add: mod_eq_0_iff_dvd)
qed

lemma mod_400_100: "(y::int) mod 400 = 0 \<Longrightarrow> y mod 100 = 0"
proof -
  assume "y mod 400 = 0"
  then have "400 dvd y" by (simp add: mod_eq_0_iff_dvd)
  moreover have "(100::int) dvd 400" by simp
  ultimately have "100 dvd y" by (rule dvd_trans [rotated])
  then show ?thesis by (simp add: mod_eq_0_iff_dvd)
qed

lemma leap_count:
  "(c \<Longrightarrow> b) \<Longrightarrow> (b \<Longrightarrow> a) \<Longrightarrow>
   365 + (if a then 1 else 0) - (if b then 1 else 0) + (if c then 1 else 0)
     = (if a \<and> (\<not> b \<or> c) then 366 else (365::int))"
  by (cases a; cases b; cases c; simp)

lemma dby_arith:
  fixes a a' b b' c c' p q r Y :: int
  assumes "a = a' + p" "b = b' + q" "c = c' + r" "365 + p - q + r = l"
  shows "365 * (Y + 1 - 1970) + (a - b + c) - 477 = 365 * (Y - 1970) + (a' - b' + c') - 477 + l"
  using assms by simp

lemma dby_step:
  "days_before_year (y + 1) = days_before_year y + (if is_leap_year y then 366 else 365)"
proof -
  have d4: "y div 4 = (y - 1) div 4 + (if y mod 4 = 0 then 1 else 0)"
    by (rule div_pred) simp
  have d100: "y div 100 = (y - 1) div 100 + (if y mod 100 = 0 then 1 else 0)"
    by (rule div_pred) simp
  have d400: "y div 400 = (y - 1) div 400 + (if y mod 400 = 0 then 1 else 0)"
    by (rule div_pred) simp
  have l: "365 + (if y mod 4 = 0 then 1 else 0) - (if y mod 100 = 0 then 1 else 0)
              + (if y mod 400 = 0 then 1 else 0) = (if is_leap_year y then 366 else (365::int))"
    unfolding is_leap_year_def
    by (rule leap_count) (rule mod_400_100, assumption, rule mod_100_4, assumption)
  show ?thesis
    unfolding days_before_year_def add_diff_cancel_right'
    by (rule dby_arith [OF d4 d100 d400 l])
qed



lemma dby_mono:
  assumes "y1 < y2"
  shows "days_before_year (y1 + 1) \<le> days_before_year y2"
  using assms
proof (induction y2 rule: int_gr_induct)
  case base
  show ?case by simp
next
  case (step i)
  have "days_before_year i \<le> days_before_year (i + 1)"
    unfolding dby_step by simp
  with step show ?case by simp
qed

lemma dim_ge: "28 \<le> days_in_month y m"
  by (simp add: days_in_month_def)

lemma dbm_step: "0 \<le> m \<Longrightarrow> days_before_month y (m + 1) = days_before_month y m + days_in_month y m"
  by (simp add: days_before_month_def nat_add_distrib)

lemma dbm_mono:
  assumes "0 \<le> m1" "m1 \<le> m2"
  shows "days_before_month y m1 \<le> days_before_month y m2"
  using assms(2,1)
proof (induction m2 rule: int_ge_induct)
  case base
  show ?case by simp
next
  case (step i)
  then have "days_before_month y (i + 1) = days_before_month y i + days_in_month y i"
    by (simp add: dbm_step)
  with step dim_ge [of y i] show ?case by simp
qed

lemma dbm_0: "days_before_month y 0 = 0"
  by (simp add: days_before_month_def)

lemma dbm_12: "days_before_month y 12 = (if is_leap_year y then 366 else 365)"
  using dbm_step [of 0 y] dbm_step [of 1 y] dbm_step [of 2 y] dbm_step [of 3 y]
    dbm_step [of 4 y] dbm_step [of 5 y] dbm_step [of 6 y] dbm_step [of 7 y]
    dbm_step [of 8 y] dbm_step [of 9 y] dbm_step [of 10 y] dbm_step [of 11 y]
  by (simp add: dbm_0 days_in_month_def)


lemma day_of_year_bounds:
  assumes "civil_instant t"
  shows "days_before_year (tm_year t + 1900) \<le> days_from_civil t"
    and "days_from_civil t < days_before_year (tm_year t + 1900 + 1)"
proof -
  let ?y = "tm_year t + 1900"
  have m: "0 \<le> tm_mon t" "tm_mon t + 1 \<le> 12" and d: "1 \<le> tm_mday t" "tm_mday t \<le> days_in_month ?y (tm_mon t)"
    using assms by (simp_all add: civil_instant_def)
  have "0 \<le> days_before_month ?y (tm_mon t)"
    using dbm_mono [of 0 "tm_mon t" ?y] m by (simp add: dbm_0)
  then show "days_before_year ?y \<le> days_from_civil t"
    using d by (simp add: days_from_civil_def)
  have "days_before_month ?y (tm_mon t) + days_in_month ?y (tm_mon t) \<le> days_before_month ?y 12"
    using dbm_mono [of "tm_mon t + 1" 12 ?y] m by (simp add: dbm_step)
  then have "days_before_month ?y (tm_mon t) + tm_mday t \<le> (if is_leap_year ?y then 366 else 365)"
    using d by (simp add: dbm_12)
  then show "days_from_civil t < days_before_year (?y + 1)"
    unfolding dby_step days_from_civil_def by (simp split: if_splits)
qed

lemma days_year_less:
  assumes "civil_instant a" "civil_instant b" "tm_year a < tm_year b"
  shows "days_from_civil a < days_from_civil b"
proof -
  have "days_from_civil a < days_before_year (tm_year a + 1900 + 1)"
    using assms(1) by (rule day_of_year_bounds)
  also have "\<dots> \<le> days_before_year (tm_year b + 1900)"
    using assms(3) by (intro dby_mono) simp
  also have "\<dots> \<le> days_from_civil b"
    using assms(2) by (rule day_of_year_bounds)
  finally show ?thesis .
qed

lemma days_month_less:
  assumes "civil_instant a" "civil_instant b" "tm_year a = tm_year b" "tm_mon a < tm_mon b"
  shows "days_from_civil a < days_from_civil b"
proof -
  let ?y = "tm_year a + 1900"
  have a: "0 \<le> tm_mon a" "tm_mday a \<le> days_in_month ?y (tm_mon a)"
    using assms(1) by (simp_all add: civil_instant_def)
  have b: "1 \<le> tm_mday b"
    using assms(2) by (simp add: civil_instant_def)
  have "days_before_month ?y (tm_mon a) + days_in_month ?y (tm_mon a) \<le> days_before_month ?y (tm_mon b)"
    using dbm_mono [of "tm_mon a + 1" "tm_mon b" ?y] a assms(4) by (simp add: dbm_step)
  with a b show ?thesis
    using assms(3) by (simp add: days_from_civil_def)
qed

lemma seconds_of_day_bounds:
  assumes "civil_instant t"
  shows "0 \<le> tm_sec t + 60 * (tm_min t + 60 * tm_hour t)"
    and "tm_sec t + 60 * (tm_min t + 60 * tm_hour t) \<le> 86400"
  using assms by (simp_all add: civil_instant_def)

lemma one_day_apart:
  fixes d s s' :: int
  assumes "0 < d" "0 \<le> s" "s \<le> 86400" "0 \<le> s'" "s' \<le> 86400" "\<bar>d * 86400 + s - s'\<bar> < 86400"
  shows "d = 1"
proof (rule ccontr)
  assume "d \<noteq> 1"
  with assms(1) have "2 \<le> d" by simp
  then have "2 * 86400 \<le> d * 86400" by simp
  with assms show False by linarith
qed

lemma timegm_split:
  "timegm t = days_from_civil t * 86400 + (tm_sec t + 60 * (tm_min t + 60 * tm_hour t))"
  by (simp add: timegm_def)

text \<open>
  Claim C8: for two civil instants whose UTC timestamps differ by less than 24 hours,
  \<^verbatim>\<open>diffTime\<close> returns that signed difference in seconds, also across a day, month or year
  boundary.
\<close>

theorem diffTime_within_a_day:
  assumes "civil_instant e" "civil_instant b" "\<bar>timegm e - timegm b\<bar> < 86400"
  shows "diffTime e b = timegm e - timegm b"
proof -
  let ?se = "tm_sec e + 60 * (tm_min e + 60 * tm_hour e)"
  let ?sb = "tm_sec b + 60 * (tm_min b + 60 * tm_hour b)"
  note se = seconds_of_day_bounds [OF assms(1)]
  note sb = seconds_of_day_bounds [OF assms(2)]
  have diff: "timegm e - timegm b = (days_from_civil e - days_from_civil b) * 86400 + ?se - ?sb"
    unfolding timegm_split by (simp add: algebra_simps)
  have later: "diffTime e b = timegm e - timegm b"
    if "days_from_civil b < days_from_civil e"
       "diffTime e b = (?se + 86400) - ?sb"
  proof -
    have "days_from_civil e - days_from_civil b = 1"
      using that(1) se sb assms(3) unfolding diff by (intro one_day_apart [of _ ?se ?sb]) simp_all
    with that(2) show ?thesis unfolding diff by simp
  qed
  have earlier: "diffTime e b = timegm e - timegm b"
    if "days_from_civil e < days_from_civil b"
       "diffTime e b = ?se - (?sb + 86400)"
  proof -
    have "\<bar>(days_from_civil b - days_from_civil e) * 86400 + ?sb - ?se\<bar> < 86400"
      using assms(3) unfolding diff by (simp add: algebra_simps abs_if split: if_splits)
    then have "days_from_civil b - days_from_civil e = 1"
      using that(1) se sb by (intro one_day_apart [of _ ?sb ?se]) simp_all
    then have "days_from_civil e - days_from_civil b = - 1" by simp
    with that(2) show ?thesis unfolding diff by simp
  qed
  consider (yg) "tm_year e > tm_year b" | (yl) "tm_year e < tm_year b"
    | (mg) "tm_year e = tm_year b" "tm_mon e > tm_mon b"
    | (ml) "tm_year e = tm_year b" "tm_mon e < tm_mon b"
    | (same) "tm_year e = tm_year b" "tm_mon e = tm_mon b"
    by linarith
  then show ?thesis
  proof cases
    case yg
    then show ?thesis
      using days_year_less [OF assms(2,1)] by (intro later) (simp_all add: diffTime_def kSecondsPerDay_def)
  next
    case yl
    then show ?thesis
      using days_year_less [OF assms(1,2)] by (intro earlier) (simp_all add: diffTime_def kSecondsPerDay_def)
  next
    case mg
    then show ?thesis
      using days_month_less [OF assms(2,1)] by (intro later) (simp_all add: diffTime_def kSecondsPerDay_def)
  next
    case ml
    then show ?thesis
      using days_month_less [OF assms(1,2)] by (intro earlier) (simp_all add: diffTime_def kSecondsPerDay_def)
  next
    case same
    then have "days_from_civil e - days_from_civil b = tm_mday e - tm_mday b"
      by (simp add: days_from_civil_def)
    with same show ?thesis
      unfolding diff by (simp add: diffTime_def kSecondsPerDay_def algebra_simps)
  qed
qed

theorem diffTime_within_a_day_witness:
  "civil_instant \<lparr>tm_sec = 0, tm_min = 30, tm_hour = 1, tm_mday = 1, tm_mon = 0, tm_year = 124\<rparr> \<and>
   civil_instant \<lparr>tm_sec = 0, tm_min = 0, tm_hour = 23, tm_mday = 31, tm_mon = 11, tm_year = 123\<rparr> \<and>
   diffTime \<lparr>tm_sec = 0, tm_min = 30, tm_hour = 1, tm_mday = 1, tm_mon = 0, tm_year = 124\<rparr>
            \<lparr>tm_sec = 0, tm_min = 0, tm_hour = 23, tm_mday = 31, tm_mon = 11, tm_year = 123\<rparr> = 9000"
proof -
  let ?e = "\<lparr>tm_sec = 0, tm_min = 30, tm_hour = 1, tm_mday = 1, tm_mon = 0, tm_year = 124\<rparr>"
  let ?b = "\<lparr>tm_sec = 0, tm_min = 0, tm_hour = 23, tm_mday = 31, tm_mon = 11, tm_year = 123\<rparr>"
  have e: "civil_instant ?e"
    by (simp add: civil_instant_def days_in_month_def)
  have b: "civil_instant ?b"
    by (simp add: civil_instant_def days_in_month_def)
  have te: "timegm ?e = 1704072600"
    by code_simp
  have tb: "timegm ?b = 1704063600"
    by code_simp
  have near: "\<bar>timegm ?e - timegm ?b\<bar> < 86400"
    unfolding te tb by simp
  show ?thesis
    using diffTime_within_a_day [OF e b near] e b unfolding te tb by simp
qed

subsection \<open>The comparator and the daylight window\<close>



text \<open>\<^verbatim>\<open>utcCompare\<close> is the three-way lexicographic comparison.\<close>

lemma utcCompare_lexicographic:
  "utcCompare a b =
     (if civil_key b < civil_key a then 1 else if civil_key a < civil_key b then - 1 else 0)"
  unfolding utcCompare_def civil_key_def less_prod_simp less_eq_prod_simp
  by (simp split: if_splits)


lemma zdump_round_first:
  assumes "zdump_round 1 rule (e, a, b) = Returns (Inr (e1, a1, b1))"
  shows "\<exists>localDate.
     parseZdumpDate (take 4 (drop 2 (tokenize [] rule))) (mStandardDateUtc e) = Returns (mStandardDateUtc e1, 0) \<and>
     parseZdumpDate (take 4 (drop 9 (tokenize [] rule))) localDate_uninitialised = Returns (localDate, 0) \<and>
     a1 = diffTime localDate (mStandardDateUtc e1) \<and> b1 = b \<and>
     e1 = e\<lparr>mStandardDateUtc := mStandardDateUtc e1\<rparr>"
  using assms
  by (auto simp: zdump_round_def token_range_def obind_Returns_iff Let_def split: if_splits prod.splits)

lemma zdump_round_second:
  assumes "zdump_round 3 rule (e, a, b) = Returns (Inr (e1, a1, b1))"
  shows "\<exists>localDate.
     parseZdumpDate (take 4 (drop 2 (tokenize [] rule))) (mDaylightDateUtc e) = Returns (mDaylightDateUtc e1, 0) \<and>
     parseZdumpDate (take 4 (drop 9 (tokenize [] rule))) localDate_uninitialised = Returns (localDate, 0) \<and>
     b1 = diffTime localDate (mDaylightDateUtc e1) \<and> a1 = a \<and>
     e1 = e\<lparr>mDaylightDateUtc := mDaylightDateUtc e1\<rparr>"
  using assms
  by (auto simp: zdump_round_def token_range_def obind_Returns_iff Let_def split: if_splits prod.splits)

lemma zdump_success_form:
  assumes "setAndroidTimeZoneUsingZdump h e = Returns (e', 0)"
  shows "\<exists>e1 a1 b1 e3 a3 b3.
     zdump_round 1 (getlines [] (output_file (run_zdump h (mTimeZoneName e) (mCurrentYear e))) ! 1) (e, 0, 0)
       = Returns (Inr (e1, a1, b1)) \<and>
     zdump_round 3 (getlines [] (output_file (run_zdump h (mTimeZoneName e) (mCurrentYear e))) ! 3) (e1, a1, b1)
       = Returns (Inr (e3, a3, b3)) \<and>
     e' = e3\<lparr>mStandardOffset := b3, mDaylightOffset := a3 - b3\<rparr>"
  using assms
  apply (simp add: setAndroidTimeZoneUsingZdump_def Let_def obind_Returns_iff split: if_splits)
  apply (elim exE conjE)
  subgoal for r1
    apply (cases r1)
     apply simp
    apply (simp add: obind_Returns_iff)
    apply (elim exE conjE)
    subgoal for st1 r3
      apply (cases r3)
       apply simp
      apply (cases st1)
      apply auto
      done
    done
  done

text \<open>
  What a successful zdump resolution stores, for every output: \<open>mStandardDateUtc\<close> is the UTC
  instant of the second line (the first transition of the year) and \<open>mDaylightDateUtc\<close> that
  of the fourth (the second transition), whichever way the transitions go; standard plus
  daylight is the local-minus-UTC difference of the second line and standard that of the
  fourth.
\<close>

lemma zdump_boundaries:
  assumes "setAndroidTimeZoneUsingZdump h e = Returns (e', 0)"
  defines "rules \<equiv> getlines [] (output_file (run_zdump h (mTimeZoneName e) (mCurrentYear e)))"
  shows "\<exists>local1 local3.
     parseZdumpDate (take 4 (drop 2 (tokenize [] (rules ! 1)))) (mStandardDateUtc e)
       = Returns (mStandardDateUtc e', 0) \<and>
     parseZdumpDate (take 4 (drop 9 (tokenize [] (rules ! 1)))) localDate_uninitialised
       = Returns (local1, 0) \<and>
     mStandardOffset e' + mDaylightOffset e' = diffTime local1 (mStandardDateUtc e') \<and>
     parseZdumpDate (take 4 (drop 2 (tokenize [] (rules ! 3)))) (mDaylightDateUtc e)
       = Returns (mDaylightDateUtc e', 0) \<and>
     parseZdumpDate (take 4 (drop 9 (tokenize [] (rules ! 3)))) localDate_uninitialised
       = Returns (local3, 0) \<and>
     mStandardOffset e' = diffTime local3 (mDaylightDateUtc e')"
proof -
  from zdump_success_form [OF assms(1)]
  obtain e1 a1 b1 e3 a3 b3 where
    r1: "zdump_round 1 (rules ! 1) (e, 0, 0) = Returns (Inr (e1, a1, b1))" and
    r3: "zdump_round 3 (rules ! 3) (e1, a1, b1) = Returns (Inr (e3, a3, b3))" and
    e': "e' = e3\<lparr>mStandardOffset := b3, mDaylightOffset := a3 - b3\<rparr>"
    unfolding rules_def by blast
  from zdump_round_first [OF r1] obtain local1 where
    u1: "parseZdumpDate (take 4 (drop 2 (tokenize [] (rules ! 1)))) (mStandardDateUtc e) = Returns (mStandardDateUtc e1, 0)" and
    l1: "parseZdumpDate (take 4 (drop 9 (tokenize [] (rules ! 1)))) localDate_uninitialised = Returns (local1, 0)" and
    a1: "a1 = diffTime local1 (mStandardDateUtc e1)" and e1: "e1 = e\<lparr>mStandardDateUtc := mStandardDateUtc e1\<rparr>"
    by blast
  from zdump_round_second [OF r3] obtain local3 where
    u3: "parseZdumpDate (take 4 (drop 2 (tokenize [] (rules ! 3)))) (mDaylightDateUtc e1) = Returns (mDaylightDateUtc e3, 0)" and
    l3: "parseZdumpDate (take 4 (drop 9 (tokenize [] (rules ! 3)))) localDate_uninitialised = Returns (local3, 0)" and
    b3: "b3 = diffTime local3 (mDaylightDateUtc e3)" and a3: "a3 = a1" and
    e3: "e3 = e1\<lparr>mDaylightDateUtc := mDaylightDateUtc e3\<rparr>"
    by blast
  have s: "mStandardDateUtc e3 = mStandardDateUtc e1"
    by (subst e3) simp
  have d: "mDaylightDateUtc e1 = mDaylightDateUtc e"
    by (subst e1) simp
  show ?thesis
    using u1 l1 u3 l3 a1 b3 a3 s d
    by (intro exI [of _ local1] exI [of _ local3])
       (simp add: e')
qed

text \<open>
  The zdump strategy on the sample output of the source (New York: the first transition of
  2016, on 13 March at 07:00:00 UTC, is to daylight time) and on the output for Sydney (the
  first transition of 2016, on 2 April at 16:00:00 UTC, is to standard time, so that
  \<open>mStandardOffset\<close> holds the offset of daylight time and \<open>mDaylightOffset\<close> is negative).
\<close>

lemma resolve_new_york_2016:
  "androidTimeZoneSet posix_host (fresh_engine 2016) ''America/New_York'' = Returns (new_york_2016, 0)"
  by code_simp

lemma resolve_sydney_2016:
  "androidTimeZoneSet (host_with_zdump zdump_sydney_2016) (fresh_engine 2016) ''Australia/Sydney''
     = Returns (sydney_2016, 0)"
  by code_simp

lemma resolve_kolkata_2016:
  "androidTimeZoneSet posix_host (fresh_engine 2016) ''Asia/Kolkata'' = Returns (kolkata_2016, 0)"
  by code_simp




subsection \<open>Year rollover\<close>

text \<open>
  Claim C6: a query in the resolved year answers from the stored rule and leaves the engine,
  call counter included, as it was, so that the same query repeated gives the same answer
  with no call of the resolver; a query in another year calls the resolver exactly once,
  stores the new year, and, asked again, answers without another call.
\<close>

theorem androidTimeZoneOffset_resolver_calls:
  assumes "mAndroidTimeZoneInit e \<noteq> 0"
  shows "(tm_year (host_gmtime h t) + 1900 = mCurrentYear e \<longrightarrow>
            androidTimeZoneOffset h e t = Returns (getTimeZoneDiff h e t, e)) \<and>
         (tm_year (host_gmtime h t) + 1900 \<noteq> mCurrentYear e \<and>
          androidTimeZoneSet h (e\<lparr>mCurrentYear := tm_year (host_gmtime h t) + 1900\<rparr>) (mTimeZoneName e)
            = Returns (e', rc) \<longrightarrow>
            androidTimeZoneOffset h e t = Returns (getTimeZoneDiff h e' t, e') \<and>
            resolver_calls e' = Suc (resolver_calls e) \<and>
            mCurrentYear e' = tm_year (host_gmtime h t) + 1900 \<and>
            androidTimeZoneOffset h e' t =
              Returns (if mAndroidTimeZoneInit e' \<noteq> 0 then getTimeZoneDiff h e' t
                       else diffTime (host_localtime h t) (host_gmtime h t), e'))"
proof (intro conjI impI)
  assume "tm_year (host_gmtime h t) + 1900 = mCurrentYear e"
  with assms show "androidTimeZoneOffset h e t = Returns (getTimeZoneDiff h e t, e)"
    by (simp add: androidTimeZoneOffset_def Let_def)
next
  let ?year = "tm_year (host_gmtime h t) + 1900"
  assume a: "?year \<noteq> mCurrentYear e \<and>
    androidTimeZoneSet h (e\<lparr>mCurrentYear := ?year\<rparr>) (mTimeZoneName e) = Returns (e', rc)"
  then have set: "androidTimeZoneSet h (e\<lparr>mCurrentYear := ?year\<rparr>) (mTimeZoneName e) = Returns (e', rc)"
    and differs: "?year \<noteq> mCurrentYear e"
    by simp_all
  from assms differs set
  show "androidTimeZoneOffset h e t = Returns (getTimeZoneDiff h e' t, e')"
    by (simp add: androidTimeZoneOffset_def Let_def obind_def)
  from androidTimeZoneSet_effect(1) [OF set]
  show "resolver_calls e' = Suc (resolver_calls e)" by simp
  from androidTimeZoneSet_effect(2) [OF set]
  show year: "mCurrentYear e' = ?year" by simp
  show "androidTimeZoneOffset h e' t =
          Returns (if mAndroidTimeZoneInit e' \<noteq> 0 then getTimeZoneDiff h e' t
                   else diffTime (host_localtime h t) (host_gmtime h t), e')"
    using year by (simp add: androidTimeZoneOffset_def Let_def)
qed

lemma rollover_2017_fails:
  "androidTimeZoneSet posix_host (new_york_2016\<lparr>mCurrentYear := 2017\<rparr>) ''America/New_York''
     = Returns (new_york_2017_failed, - 1)"
  by code_simp

theorem androidTimeZoneOffset_resolver_calls_witness:
  "androidTimeZoneOffset posix_host new_york_2016 1467331200
     = Returns (getTimeZoneDiff posix_host new_york_2016 1467331200, new_york_2016) \<and>
   resolver_calls new_york_2016 = 1 \<and>
   (\<exists>v. androidTimeZoneOffset posix_host new_york_2016 1483228800 = Returns (v, new_york_2017_failed)) \<and>
   resolver_calls new_york_2017_failed = 2 \<and>
   (\<exists>v. androidTimeZoneOffset posix_host new_york_2017_failed 1483228800 = Returns (v, new_york_2017_failed))"
proof -
  have init: "mAndroidTimeZoneInit new_york_2016 \<noteq> 0"
    by (simp add: new_york_2016_def)
  have same: "tm_year (host_gmtime posix_host 1467331200) + 1900 = mCurrentYear new_york_2016"
    by code_simp
  have year: "tm_year (host_gmtime posix_host 1483228800) + 1900 = 2017"
    by code_simp
  have other: "tm_year (host_gmtime posix_host 1483228800) + 1900 \<noteq> mCurrentYear new_york_2016"
    by code_simp
  have name: "mTimeZoneName new_york_2016 = ''America/New_York''"
    by (simp add: new_york_2016_def)
  have set: "androidTimeZoneSet posix_host
               (new_york_2016\<lparr>mCurrentYear := tm_year (host_gmtime posix_host 1483228800) + 1900\<rparr>)
               (mTimeZoneName new_york_2016) = Returns (new_york_2017_failed, - 1)"
    unfolding year name by (rule rollover_2017_fails)
  have calls: "resolver_calls new_york_2016 = 1" "resolver_calls new_york_2017_failed = 2"
    by (simp_all add: new_york_2016_def new_york_2017_failed_def)
  show ?thesis
    using androidTimeZoneOffset_resolver_calls [OF init, of posix_host 1467331200] same
      androidTimeZoneOffset_resolver_calls [OF init, of posix_host 1483228800 new_york_2017_failed "- 1"]
      other set calls
    by simp
qed

text \<open>
  After a failed re-resolution the engine is no longer initialised, yet the call under way
  still answers from the stored fields.
\<close>

lemma androidTimeZoneOffset_after_failed_resolution:
  assumes "mAndroidTimeZoneInit e \<noteq> 0" "tm_year (host_gmtime h t) + 1900 \<noteq> mCurrentYear e"
    and "androidTimeZoneSet h (e\<lparr>mCurrentYear := tm_year (host_gmtime h t) + 1900\<rparr>) (mTimeZoneName e)
           = Returns (e', rc)" "rc \<noteq> 0"
  shows "androidTimeZoneOffset h e t = Returns (getTimeZoneDiff h e' t, e')"
    and "mAndroidTimeZoneInit e' = 0"
proof -
  show "androidTimeZoneOffset h e t = Returns (getTimeZoneDiff h e' t, e')"
    using assms(1-3) by (simp add: androidTimeZoneOffset_def Let_def obind_def)
  show "mAndroidTimeZoneInit e' = 0"
    using androidTimeZoneSet_effect(4) [OF assms(3)] assms(4) by (simp split: if_splits)
qed

text \<open>
  Claim C1: when a query of a resolved engine falls in another year and the re-resolution
  fails, the value returned for that call is the host's own local-minus-UTC offset. The
  code returns the offset of the stored rule instead: on a host one hour east of Greenwich,
  the New York engine of 2016 asked about 1 January 2017, with a resolver that fails for
  2017, answers -18000 where the host's offset is 3600, and only then is left
  uninitialised.
\<close>

theorem androidTimeZoneOffset_failed_rollover_uses_stored_rule:
  "androidTimeZoneSet posix_host (new_york_2016\<lparr>mCurrentYear := 2017\<rparr>) (mTimeZoneName new_york_2016)
     = Returns (new_york_2017_failed, - 1) \<and>
   androidTimeZoneOffset posix_host new_york_2016 1483228800 = Returns (- 18000, new_york_2017_failed) \<and>
   mAndroidTimeZoneInit new_york_2017_failed = 0 \<and>
   diffTime (host_localtime posix_host 1483228800) (host_gmtime posix_host 1483228800) = 3600 \<and>
   androidTimeZoneOffset posix_host new_york_2017_failed 1483228800 = Returns (3600, new_york_2017_failed)"
  by code_simp

subsection \<open>Setting the zone\<close>

text \<open>
  Claim C5, as stated: a name that fails the validator makes \<^verbatim>\<open>timezone_set\<close> fail and leave
  the engine unchanged, and on any validation or resolution failure the engine does not
  keep a previous valid rule as its active state. The two parts disagree on a resolved
  engine: after \<^verbatim>\<open>timezone_set("Not_A_Zone")\<close> the New York engine is unchanged, so its rule is
  still the active one.
\<close>

theorem timezone_set_invalid_name_keeps_rule:
  "timezone_set posix_host (globals_with new_york_2016) (Some ''Not_A_Zone'')
     = Returns ((globals_with new_york_2016)\<lparr>android_timezone_init := 0\<rparr>, - 1) \<and>
   mAndroidTimeZoneInit (sAndroidTimeZone ((globals_with new_york_2016)\<lparr>android_timezone_init := 0\<rparr>)) = 1 \<and>
   androidTimeZoneOffset posix_host
     (sAndroidTimeZone ((globals_with new_york_2016)\<lparr>android_timezone_init := 0\<rparr>)) 1467331200
     = Returns (- 14400, new_york_2016)"
  by code_simp

text \<open>
  Claim C5, amended: a name that fails the validator (or is longer than 255 characters)
  makes \<^verbatim>\<open>timezone_set\<close> return -1 and leave the engine unchanged, so that a resolved engine
  keeps its rule; a valid name whose resolution fails makes it return -1 and leaves the
  engine uninitialised, answering from the host.
\<close>

theorem timezone_set_failure:
  "(\<not> check_timezone_is_zoneinfo tzname \<or> 255 < length (the tzname) \<longrightarrow>
      timezone_set h g tzname = Returns (g\<lparr>android_timezone_init := 0\<rparr>, - 1) \<and>
      sAndroidTimeZone (g\<lparr>android_timezone_init := 0\<rparr>) = sAndroidTimeZone g) \<and>
   (check_timezone_is_zoneinfo tzname \<and> length (the tzname) \<le> 255 \<and>
    androidTimeZoneSet h (sAndroidTimeZone g) (the tzname) = Returns (e', rc) \<and> rc \<noteq> 0 \<longrightarrow>
      timezone_set h g tzname =
        Returns (g\<lparr>android_timezone_init := 0, android_timezone0 := the tzname,
                   android_timezone := Some (the tzname), sAndroidTimeZone := e'\<rparr>, - 1) \<and>
      mAndroidTimeZoneInit e' = 0)"
proof (intro conjI impI)
  assume "\<not> check_timezone_is_zoneinfo tzname \<or> 255 < length (the tzname)"
  then show "timezone_set h g tzname = Returns (g\<lparr>android_timezone_init := 0\<rparr>, - 1)"
    by (auto simp: timezone_set_def Let_def)
next
  show "sAndroidTimeZone (g\<lparr>android_timezone_init := 0\<rparr>) = sAndroidTimeZone g"
    by simp
next
  assume a: "check_timezone_is_zoneinfo tzname \<and> length (the tzname) \<le> 255 \<and>
    androidTimeZoneSet h (sAndroidTimeZone g) (the tzname) = Returns (e', rc) \<and> rc \<noteq> 0"
  then show "timezone_set h g tzname =
        Returns (g\<lparr>android_timezone_init := 0, android_timezone0 := the tzname,
                   android_timezone := Some (the tzname), sAndroidTimeZone := e'\<rparr>, - 1)"
    by (simp add: timezone_set_def Let_def obind_def)
  from a have set: "androidTimeZoneSet h (sAndroidTimeZone g) (the tzname) = Returns (e', rc)"
    and rc: "rc \<noteq> 0" by simp_all
  show "mAndroidTimeZoneInit e' = 0"
    using androidTimeZoneSet_effect(4) [OF set] rc by (simp split: if_splits)
qed

lemma resolve_unknown_zone_fails:
  "androidTimeZoneSet posix_host new_york_2016 ''Mars/Olympus''
     = Returns (new_york_2016\<lparr>mTimeZoneName := ''Mars/Olympus'', mAndroidTimeZoneInit := 0,
                               resolver_calls := 2\<rparr>, - 1)"
  by code_simp

theorem timezone_set_failure_witness:
  "timezone_set posix_host (globals_with new_york_2016) (Some ''Not_A_Zone'')
     = Returns ((globals_with new_york_2016)\<lparr>android_timezone_init := 0\<rparr>, - 1) \<and>
   timezone_set posix_host (globals_with new_york_2016) (Some ''Mars/Olympus'')
     = Returns ((globals_with new_york_2016)
          \<lparr>android_timezone_init := 0, android_timezone0 := ''Mars/Olympus'',
            android_timezone := Some ''Mars/Olympus'',
            sAndroidTimeZone := new_york_2016\<lparr>mTimeZoneName := ''Mars/Olympus'',
               mAndroidTimeZoneInit := 0, resolver_calls := 2\<rparr>\<rparr>, - 1)"
proof -
  have bad: "\<not> check_timezone_is_zoneinfo (Some ''Not_A_Zone'')"
    by (simp add: check_timezone_is_zoneinfo_def)
  have good: "check_timezone_is_zoneinfo (Some ''Mars/Olympus'')"
    by (simp add: check_timezone_is_zoneinfo_def)
  have eng: "sAndroidTimeZone (globals_with new_york_2016) = new_york_2016"
    by (simp add: globals_with_def)
  show ?thesis
    using timezone_set_failure [of "Some ''Not_A_Zone''" posix_host "globals_with new_york_2016"]
      timezone_set_failure [of "Some ''Mars/Olympus''" posix_host "globals_with new_york_2016"
        "new_york_2016\<lparr>mTimeZoneName := ''Mars/Olympus'', mAndroidTimeZoneInit := 0, resolver_calls := 2\<rparr>" "- 1"]
      bad good resolve_unknown_zone_fails
    by (simp add: eng)
qed

subsection \<open>The byte comparison\<close>






subsection \<open>The registry strategy\<close>

text \<open>
  On Windows the daylight member is never written, and when the daylight bias is not zero
  the standard member ends as the registry's daylight date.
\<close>

lemma win32_boundaries:
  "mDaylightDateUtc (androidTimeZoneSet_win32 tbl h e n) = mDaylightDateUtc e"
  "find_winName tbl n = Some w \<Longrightarrow> registry_tzi h w = Some tzi \<Longrightarrow> DaylightBias tzi \<noteq> 0 \<Longrightarrow>
     mStandardDateUtc (androidTimeZoneSet_win32 tbl h e n)
       = parseSystemTime (DaylightDate tzi) (parseSystemTime (StandardDate tzi) (mStandardDateUtc e))"
  by (simp_all add: androidTimeZoneSet_win32_def Let_def split: option.splits)

lemma parseSystemTime_overwrites:
  "parseSystemTime d2 (parseSystemTime d1 t) = parseSystemTime d2 t"
  by (simp add: parseSystemTime_def)

lemma sydney_win_name:
  "find_winName win32_timezones ''Australia/Sydney'' = Some ''AUS Eastern Standard Time''"
  by code_simp

text \<open>
  Claim C3: when the registry strategy succeeds for a zone with a non-zero daylight bias, the
  standard date of the record is stored in the standard member and the daylight date in the
  daylight member. The code passes \<^verbatim>\<open>&mStandardDateUtc\<close> to both calls of
  \<^verbatim>\<open>parseSystemTime\<close>: for \<open>Australia/Sydney\<close> the standard member ends holding the daylight
  date (October) instead of the standard date (April), and the daylight member keeps what
  it held before the call.
\<close>

theorem androidTimeZoneSet_win32_overwrites_standard_date:
  "androidTimeZoneSet win32_host (fresh_engine 2016) ''Australia/Sydney''
     = Returns (\<lparr>mStandardDateUtc = \<lparr>tm_sec = 0, tm_min = 0, tm_hour = 2, tm_mday = 1, tm_mon = 9, tm_year = - 1900\<rparr>,
                 mDaylightDateUtc = tm_zero, mStandardOffset = 0, mDaylightOffset = 3600,
                 mCurrentYear = 2016, mAndroidTimeZoneInit = 1,
                 mTimeZoneName = ''Australia/Sydney'', resolver_calls = 1\<rparr>, 0) \<and>
   parseSystemTime (DaylightDate sydney_tzi) tm_zero
     = \<lparr>tm_sec = 0, tm_min = 0, tm_hour = 2, tm_mday = 1, tm_mon = 9, tm_year = - 1900\<rparr> \<and>
   parseSystemTime (StandardDate sydney_tzi) tm_zero
     = \<lparr>tm_sec = 0, tm_min = 0, tm_hour = 3, tm_mday = 1, tm_mon = 3, tm_year = - 1900\<rparr> \<and>
   mDaylightDateUtc (fresh_engine 2016) = tm_zero"
  by code_simp

subsection \<open>The zdump and date strategies\<close>

text \<open>The zdump strategy returns -1 and leaves the engine alone when the command did not run,
  exited with a non-zero code, or did not print four lines.\<close>

lemma zdump_fails_without_four_lines:
  assumes "\<not> tempfile_created (run_zdump h (mTimeZoneName e) (mCurrentYear e)) \<or>
           \<not> commandRan (run_zdump h (mTimeZoneName e) (mCurrentYear e)) \<or>
           exitCode (run_zdump h (mTimeZoneName e) (mCurrentYear e)) \<noteq> 0 \<or>
           length (getlines [] (output_file (run_zdump h (mTimeZoneName e) (mCurrentYear e)))) \<noteq> 4"
  shows "setAndroidTimeZoneUsingZdump h e = Returns (e, - 1)"
  using assms by (auto simp: setAndroidTimeZoneUsingZdump_def Let_def)

text \<open>It also returns -1 when the month of the second line is not a month name.\<close>

lemma parseZdumpDate_unknown_month:
  assumes "monIdx_from kMonthName 0 (tokens ! 0) = - 1"
  shows "parseZdumpDate tokens date = Returns (date, - 1)"
  using assms by (simp add: parseZdumpDate_def Let_def)

text \<open>The date strategy runs only after the zdump strategy has returned a failure.\<close>

lemma date_only_after_zdump_failed:
  assumes "\<not> win32 h"
    and "setAndroidTimeZoneUsingZdump h
           (e\<lparr>mTimeZoneName := n, mAndroidTimeZoneInit := 0, resolver_calls := Suc (resolver_calls e)\<rparr>)
           = Returns (e1, 0)"
  shows "androidTimeZoneSet h e n = Returns (e1\<lparr>mAndroidTimeZoneInit := 1\<rparr>, 0)"
  using assms by (simp add: androidTimeZoneSet_def Let_def obind_def)

lemma date_after_zdump_failed:
  assumes "\<not> win32 h"
    and "setAndroidTimeZoneUsingZdump h
           (e\<lparr>mTimeZoneName := n, mAndroidTimeZoneInit := 0, resolver_calls := Suc (resolver_calls e)\<rparr>)
           = Returns (e1, rc)" "rc \<noteq> 0"
    and "setAndroidTimeZoneUsingDate h e1 = Returns (e2, 0)"
  shows "androidTimeZoneSet h e n = Returns (e2\<lparr>mAndroidTimeZoneInit := 1\<rparr>, 0)"
    and "mDaylightOffset (e2\<lparr>mAndroidTimeZoneInit := 1\<rparr>) = 0"
  using assms date_success_no_daylight [OF assms(4)]
  by (simp_all add: androidTimeZoneSet_def Let_def obind_def)

text \<open>
  Claim C9: zdump first and date only after zdump failed; zdump fails, returning a failure,
  whenever the command did not run, exited non-zero, or printed something that does not
  have the expected line count and token shape; a successful date fallback stores a zero
  daylight offset. The order, the failures on a command that did not run, a non-zero exit
  and a wrong line count, and the zero daylight offset hold (lemmas above). Four lines of
  the wrong shape do not make the strategy return: lines of fewer than thirteen words make
  it build a vector from a range past the end of the words, and a day, time or year that is
  not a number makes \<^verbatim>\<open>std::stoi\<close> throw, which nothing catches.
\<close>

theorem zdump_wrong_shape_does_not_return:
  "length (getlines [] zdump_kolkata_2036) = 4 \<and>
   setAndroidTimeZoneUsingZdump (host_with_zdump zdump_kolkata_2036)
     ((fresh_engine 2036)\<lparr>mTimeZoneName := ''Asia/Kolkata''\<rparr>) = Undefined \<and>
   androidTimeZoneSet (host_with_zdump zdump_kolkata_2036) (fresh_engine 2036) ''Asia/Kolkata''
     = Undefined \<and>
   length (getlines [] zdump_bad_day) = 4 \<and>
   setAndroidTimeZoneUsingZdump (host_with_zdump zdump_bad_day)
     ((fresh_engine 2016)\<lparr>mTimeZoneName := ''America/New_York''\<rparr>) = Throws Invalid_argument \<and>
   androidTimeZoneSet (host_with_zdump zdump_bad_day) (fresh_engine 2016) ''America/New_York''
     = Throws Invalid_argument"
  by code_simp

end
